theory Spec2Isabelle
  imports Complex_Main
begin

section \<open>The running standard deviation (lrojitreg.cc, class RunningStandardDeviation)\<close>

text \<open>
  The class has one counter and four doubles. Doubles are modelled as exact reals: rounding
  is outside the model. The counter \<open>m_n\<close> is a C++ \<open>int\<close>; the model counts in
  \<open>int\<close>, which agrees with the code as long as fewer than \<open>2^31\<close> values are pushed.
\<close>

record RunningStandardDeviation =
  m_n :: int
  m_oldM :: real
  m_newM :: real
  m_oldS :: real
  m_newS :: real

text \<open>
  The constructor initialises \<open>m_n\<close> only. The argument is the indeterminate content of
  the object's storage, of which the four doubles are kept as they are.
\<close>

definition RunningStandardDeviation_ctor :: "RunningStandardDeviation \<Rightarrow> RunningStandardDeviation" where
  "RunningStandardDeviation_ctor storage = storage\<lparr>m_n := 0\<rparr>"

definition Clear :: "RunningStandardDeviation \<Rightarrow> RunningStandardDeviation" where
  "Clear s = s\<lparr>m_n := 0\<rparr>"

definition Push :: "RunningStandardDeviation \<Rightarrow> real \<Rightarrow> RunningStandardDeviation" where
  "Push s x =
     (let s1 = s\<lparr>m_n := m_n s + 1\<rparr> in
      if m_n s1 = 1 then s1\<lparr>m_oldM := x, m_newM := x, m_oldS := 0\<rparr>
      else
        let newM = m_oldM s1 + (x - m_oldM s1) / real_of_int (m_n s1);
            newS = m_oldS s1 + (x - m_oldM s1) * (x - newM)
        in s1\<lparr>m_newM := newM, m_newS := newS, m_oldM := newM, m_oldS := newS\<rparr>)"

definition NumDataValues :: "RunningStandardDeviation \<Rightarrow> int" where
  "NumDataValues s = m_n s"

definition Mean :: "RunningStandardDeviation \<Rightarrow> real" where
  "Mean s = (if m_n s > 0 then m_newM s else 0)"

definition Variance :: "RunningStandardDeviation \<Rightarrow> real" where
  "Variance s = (if m_n s > 1 then m_newS s / real_of_int (m_n s - 1) else 0)"

definition StandardDeviation :: "RunningStandardDeviation \<Rightarrow> real" where
  "StandardDeviation s = sqrt (Variance s)"

text \<open>A sequence of \<open>Push\<close> calls, first element first.\<close>

definition push_all :: "RunningStandardDeviation \<Rightarrow> real list \<Rightarrow> RunningStandardDeviation" where
  "push_all s xs = foldl Push s xs"

subsection \<open>The update as the specification words it\<close>

text \<open>
  The specification's accumulator is the triple (sample count, running mean, running sum of
  squared deviations), all zero at the start. These definitions follow the specification's
  sentences; the theorems compare the class with them.
\<close>

record welford =
  w_count :: nat
  w_mean :: real
  w_sumSq :: real

definition welford_init :: welford where
  "welford_init = \<lparr>w_count = 0, w_mean = 0, w_sumSq = 0\<rparr>"

definition welford_push :: "welford \<Rightarrow> real \<Rightarrow> welford" where
  "welford_push w x =
     (let n = w_count w + 1;
          newMean = w_mean w + (x - w_mean w) / real n
      in \<lparr>w_count = n, w_mean = newMean,
          w_sumSq = w_sumSq w + (x - w_mean w) * (x - newMean)\<rparr>)"

definition welford_all :: "real list \<Rightarrow> welford" where
  "welford_all xs = foldl welford_push welford_init xs"

definition welford_variance :: "welford \<Rightarrow> real" where
  "welford_variance w = (if w_count w > 1 then w_sumSq w / real (w_count w - 1) else 0)"

section \<open>The offset estimator (lrojitreg.cc, determineShifts and main)\<close>

text \<open>
  A cell of the disparity map is a \<open>PixelMask<Vector2i>\<close>: invalid (\<open>None\<close>), or
  valid with an integer shift \<open>(x, y)\<close>. The map is the list of its rows, each the list of
  its cells by column: \<open>disparity_map(col,row)\<close> is \<open>disparity_map ! row ! col\<close>.
\<close>

type_synonym PixelMask_Vector2i = "(int \<times> int) option"

type_synonym DisparityMap = "PixelMask_Vector2i list list"

text \<open>
  Of \<open>Parameters\<close> the model keeps what \<open>determineShifts\<close> itself branches on or prints;
  the search window, the kernel and the other settings only go to the external correlator.
\<close>

record Parameters =
  leftFilePath :: string
  rightFilePath :: string
  rowLogFilePath :: string
  usePyramid :: bool

datatype exn = ArgumentErr | IOErr | OtherErr

text \<open>The lines written with \<open>printf\<close>, one constructor per call, with the values printed.\<close>

datatype stdout_line =
    ErrInputMissing string
  | MsgLoadingImages string string
  | MsgInputImageSize
  | MsgSearchImageSize
  | MsgRunningCorrelation
  | MsgPyramidSearch
  | MsgNonPyramidSearch
  | MsgAccumulating
  | ErrLogCreate string
  | MsgLogCreated string
  | ErrNoValidMatches
  | MsgValidPixels int int
  | MsgFailedParse
  | MsgMeanSampleOffset real
  | MsgMeanLineOffset real
  | MsgException exn

text \<open>
  The row log: its fixed header (lines 313 to 366) and the registration block (lines 440 to
  457) are one constructor each; a row line carries the row and the two row means; the
  summary carries mean and standard deviation of the sample and of the line offset, or is
  the \<open>NULL\<close> placeholder.
\<close>

datatype log_line =
    LogHeader
  | LogRow int real real
  | LogRegistration
  | LogAverages real real real real
  | LogAveragesNULL

text \<open>
  What a run meets outside the function: which paths exist, whether the row log can be
  opened, the disparity map the external correlator yields for the two images, and the
  indeterminate storage of the two accumulators. Loading the images and correlating them
  is taken to return.
\<close>

record environment =
  file_exists :: "string \<Rightarrow> bool"
  log_opens :: "string \<Rightarrow> bool"
  correlated :: DisparityMap
  storageX :: RunningStandardDeviation
  storageY :: RunningStandardDeviation

text \<open>
  The inner loop over the columns of one row. The state is \<open>rowSum\<close>, \<open>colSum\<close>,
  \<open>numValidInRow\<close>, \<open>stdCalcX\<close> and \<open>stdCalcY\<close>; the \<open>int\<close> shift becomes a
  \<open>float\<close> and then a \<open>double\<close>, both read as reals.
\<close>

fun col_loop ::
  "PixelMask_Vector2i list
   \<Rightarrow> real \<times> real \<times> int \<times> RunningStandardDeviation \<times> RunningStandardDeviation
   \<Rightarrow> real \<times> real \<times> int \<times> RunningStandardDeviation \<times> RunningStandardDeviation" where
  "col_loop [] st = st"
| "col_loop (px # rest) (rowSum, colSum, numValidInRow, calcX, calcY) =
     (case px of
        None \<Rightarrow> col_loop rest (rowSum, colSum, numValidInRow, calcX, calcY)
      | Some (x, y) \<Rightarrow>
          (let dY = real_of_int y; dX = real_of_int x
           in col_loop rest
                (rowSum + dY, colSum + dX, numValidInRow + 1, Push calcX dX, Push calcY dY)))"

record accum =
  stdCalcX :: RunningStandardDeviation
  stdCalcY :: RunningStandardDeviation
  numValidRows :: int
  totalNumValidPixels :: int
  rowOffsets :: "real list"
  colOffsets :: "real list"
  out :: "log_line list"

text \<open>The outer loop, from row \<open>row\<close> on, over the rows that are left.\<close>

fun row_loop :: "DisparityMap \<Rightarrow> nat \<Rightarrow> bool \<Rightarrow> accum \<Rightarrow> accum" where
  "row_loop [] row writeLogFile a = a"
| "row_loop (cells # rest) row writeLogFile a =
     (case col_loop cells (0, 0, 0, stdCalcX a, stdCalcY a) of
        (rowSum, colSum, numValidInRow, calcX, calcY) \<Rightarrow>
          (let a1 = a\<lparr>stdCalcX := calcX, stdCalcY := calcY\<rparr>;
               a2 = (if numValidInRow = 0
                     then a1\<lparr>rowOffsets := (rowOffsets a1)[row := 0],
                             colOffsets := (colOffsets a1)[row := 0]\<rparr>
                     else a1\<lparr>rowOffsets := (rowOffsets a1)[row := rowSum / real_of_int numValidInRow],
                             colOffsets := (colOffsets a1)[row := colSum / real_of_int numValidInRow],
                             totalNumValidPixels := totalNumValidPixels a1 + numValidInRow,
                             numValidRows := numValidRows a1 + 1\<rparr>);
               a3 = (if writeLogFile
                     then a2\<lparr>out := out a2 @ [LogRow (int row) (rowOffsets a2 ! row) (colOffsets a2 ! row)]\<rparr>
                     else a2)
           in row_loop rest (Suc row) writeLogFile a3))"

text \<open>
  Lines 371 to 433: the locals at their initial values, then the loop over all rows. The
  two vectors have one zero per row.
\<close>

definition accumulate_offsets ::
  "DisparityMap \<Rightarrow> bool \<Rightarrow> RunningStandardDeviation \<Rightarrow> RunningStandardDeviation \<Rightarrow> accum" where
  "accumulate_offsets disparity_map writeLogFile sx sy =
     row_loop disparity_map 0 writeLogFile
       \<lparr>stdCalcX = RunningStandardDeviation_ctor sx,
        stdCalcY = RunningStandardDeviation_ctor sy,
        numValidRows = 0,
        totalNumValidPixels = 0,
        rowOffsets = replicate (length disparity_map) 0,
        colOffsets = replicate (length disparity_map) 0,
        out = (if writeLogFile then [LogHeader] else [])\<rparr>"

text \<open>
  The result of \<open>determineShifts\<close>: the returned flag, the two reference parameters (which
  keep the values they came with unless assigned), the lines printed, and the row log if
  one was created.
\<close>

record shifts_result =
  ret :: bool
  dX :: real
  dY :: real
  stdout :: "stdout_line list"
  logfile :: "log_line list option"

definition determineShifts :: "environment \<Rightarrow> Parameters \<Rightarrow> real \<Rightarrow> real \<Rightarrow> shifts_result" where
  "determineShifts env params dX0 dY0 =
     (if \<not> file_exists env (leftFilePath params)
      then \<lparr>ret = False, dX = dX0, dY = dY0,
            stdout = [ErrInputMissing (leftFilePath params)], logfile = None\<rparr>
      else if \<not> file_exists env (rightFilePath params)
      then \<lparr>ret = False, dX = dX0, dY = dY0,
            stdout = [ErrInputMissing (rightFilePath params)], logfile = None\<rparr>
      else
        let printed1 =
              [MsgLoadingImages (leftFilePath params) (rightFilePath params),
               MsgInputImageSize, MsgSearchImageSize, MsgRunningCorrelation,
               (if usePyramid params then MsgPyramidSearch else MsgNonPyramidSearch),
               MsgAccumulating];
            disparity_map = correlated env;
            writeLogFile = (rowLogFilePath params \<noteq> [])
        in
          if writeLogFile \<and> \<not> log_opens env (rowLogFilePath params)
          then \<lparr>ret = False, dX = dX0, dY = dY0,
                stdout = printed1 @ [ErrLogCreate (rowLogFilePath params)], logfile = None\<rparr>
          else
            let printed2 =
                  printed1 @ (if writeLogFile then [MsgLogCreated (rowLogFilePath params)] else []);
                a = accumulate_offsets disparity_map writeLogFile (storageX env) (storageY env);
                written =
                  (if writeLogFile
                   then Some (out a @
                          [LogRegistration,
                           (if numValidRows a > 0
                            then LogAverages (Mean (stdCalcX a)) (StandardDeviation (stdCalcX a))
                                             (Mean (stdCalcY a)) (StandardDeviation (stdCalcY a))
                            else LogAveragesNULL)])
                   else None)
            in
              if numValidRows a = 0
              then \<lparr>ret = False, dX = dX0, dY = dY0,
                    stdout = printed2 @ [ErrNoValidMatches], logfile = written\<rparr>
              else \<lparr>ret = True, dX = Mean (stdCalcX a), dY = Mean (stdCalcY a),
                    stdout = printed2 @ [MsgValidPixels (totalNumValidPixels a) (numValidRows a)],
                    logfile = written\<rparr>)"

text \<open>
  The command line as the external parser \<open>asp::check_command_line\<close> leaves it: an
  exception, or the variables map, of which \<open>handle_arguments\<close> reads these entries.
\<close>

record variables_map =
  vm_left :: "string option"
  vm_right :: "string option"
  vm_rowLog :: string
  vm_pyramid :: bool

definition handle_arguments :: "exn + variables_map \<Rightarrow> exn + bool \<times> Parameters" where
  "handle_arguments parsed =
     (case parsed of
        Inl e \<Rightarrow> Inl e
      | Inr vm \<Rightarrow>
          (case (vm_left vm, vm_right vm) of
             (Some l, Some r) \<Rightarrow>
               Inr (True, \<lparr>leftFilePath = l, rightFilePath = r,
                          rowLogFilePath = vm_rowLog vm, usePyramid = vm_pyramid vm\<rparr>)
           | _ \<Rightarrow> Inl ArgumentErr))"

text \<open>
  Modelled from the spec: the macro \<open>ASP_STANDARD_CATCHES\<close> is not among the sources. The
  specification says that the top-level driver converts any otherwise-unhandled
  collaborator failure into a diagnostic and a non-zero outcome.
\<close>

definition ASP_STANDARD_CATCHES :: "exn \<Rightarrow> int \<times> stdout_line list" where
  "ASP_STANDARD_CATCHES e = (1, [MsgException e])"

text \<open>
  \<open>main\<close>: the exit status and the lines printed. \<open>dX0\<close> and \<open>dY0\<close> are what the
  uninitialised locals \<open>dX\<close> and \<open>dY\<close> hold. \<open>return false\<close> in \<open>int main\<close> is the
  exit status 0.
\<close>

definition main :: "environment \<Rightarrow> exn + variables_map \<Rightarrow> real \<Rightarrow> real \<Rightarrow> int \<times> stdout_line list" where
  "main env parsed dX0 dY0 =
     (case handle_arguments parsed of
        Inl e \<Rightarrow> ASP_STANDARD_CATCHES e
      | Inr (parsed_ok, params) \<Rightarrow>
          if \<not> parsed_ok then (0, [MsgFailedParse])
          else
            let r = determineShifts env params dX0 dY0
            in if ret r
               then (0, stdout r @ [MsgMeanSampleOffset (dX r), MsgMeanLineOffset (dY r)])
               else (0, stdout r))"

subsection \<open>Vocabulary for the statements about the offset estimator\<close>

text \<open>The shifts of the valid cells of a row, in column order, and of the whole map, row by row.\<close>

fun valid_cells :: "PixelMask_Vector2i list \<Rightarrow> (int \<times> int) list" where
  "valid_cells [] = []"
| "valid_cells (None # rest) = valid_cells rest"
| "valid_cells (Some v # rest) = v # valid_cells rest"

definition samples_x :: "PixelMask_Vector2i list \<Rightarrow> real list" where
  "samples_x cells = map (\<lambda>v. real_of_int (fst v)) (valid_cells cells)"

definition samples_y :: "PixelMask_Vector2i list \<Rightarrow> real list" where
  "samples_y cells = map (\<lambda>v. real_of_int (snd v)) (valid_cells cells)"

definition all_samples_x :: "DisparityMap \<Rightarrow> real list" where
  "all_samples_x disparity_map = concat (map samples_x disparity_map)"

definition all_samples_y :: "DisparityMap \<Rightarrow> real list" where
  "all_samples_y disparity_map = concat (map samples_y disparity_map)"

text \<open>The mean of a list of samples, and the same with 0 for the empty list.\<close>

definition average :: "real list \<Rightarrow> real" where
  "average xs = sum_list xs / real (length xs)"

definition row_mean :: "real list \<Rightarrow> real" where
  "row_mean xs = (if xs = [] then 0 else average xs)"

definition no_valid_rows :: "DisparityMap \<Rightarrow> bool" where
  "no_valid_rows disparity_map = list_all (\<lambda>cells. valid_cells cells = []) disparity_map"

definition fails_NoValidMatches :: "shifts_result \<Rightarrow> bool" where
  "fails_NoValidMatches r = (\<not> ret r \<and> last (stdout r) = ErrNoValidMatches)"

text \<open>The summary line of the row log, in terms of the samples.\<close>

definition log_summary :: "environment \<Rightarrow> log_line" where
  "log_summary env =
     (if no_valid_rows (correlated env) then LogAveragesNULL
      else LogAverages
             (Mean (push_all (RunningStandardDeviation_ctor (storageX env)) (all_samples_x (correlated env))))
             (StandardDeviation (push_all (RunningStandardDeviation_ctor (storageX env)) (all_samples_x (correlated env))))
             (Mean (push_all (RunningStandardDeviation_ctor (storageY env)) (all_samples_y (correlated env))))
             (StandardDeviation (push_all (RunningStandardDeviation_ctor (storageY env)) (all_samples_y (correlated env)))))"

text \<open>Whether the row log a run wrote holds the \<open>NULL\<close> summary.\<close>

definition writes_NULL_summary :: "shifts_result \<Rightarrow> bool" where
  "writes_NULL_summary r =
     (case logfile r of None \<Rightarrow> False | Some written \<Rightarrow> LogAveragesNULL \<in> set written)"

subsection \<open>Concrete runs of the offset estimator\<close>

text \<open>
  A two by two disparity map with three valid cells, read with a row log; both inputs exist
  and the log opens. The accumulators' storage holds arbitrary values.
\<close>

definition garbage :: RunningStandardDeviation where
  "garbage = \<lparr>m_n = 7, m_oldM = 1, m_newM = 2, m_oldS = 3, m_newS = 4\<rparr>"

definition example_env :: environment where
  "example_env =
     \<lparr>file_exists = (\<lambda>p. True), log_opens = (\<lambda>p. True),
      correlated = [[Some (1, 2), None], [Some (3, 4), Some (5, 6)]],
      storageX = garbage, storageY = garbage\<rparr>"

definition example_params :: Parameters where
  "example_params =
     \<lparr>leftFilePath = ''left.cub'', rightFilePath = ''right.cub'',
      rowLogFilePath = ''rows.log'', usePyramid = False\<rparr>"

text \<open>The same run with a row log that cannot be opened, with no valid cell, and with the left input missing.\<close>

definition unwritable_log_env :: environment where
  "unwritable_log_env = example_env\<lparr>log_opens := (\<lambda>p. False)\<rparr>"

definition no_match_env :: environment where
  "no_match_env = example_env\<lparr>correlated := [[None, None], [None, None]]\<rparr>"

definition missing_input_env :: environment where
  "missing_input_env = example_env\<lparr>file_exists := (\<lambda>p. p \<noteq> ''left.cub'')\<rparr>"

definition example_command_line :: "exn + variables_map" where
  "example_command_line =
     Inr \<lparr>vm_left = Some ''left.cub'', vm_right = Some ''right.cub'',
          vm_rowLog = ''rows.log'', vm_pyramid = False\<rparr>"

section \<open>The ISIS stereo session (StereoSessionIsis.cc)\<close>

subsection \<open>Duplicate matches\<close>

text \<open>
  A \<open>Vector3\<close> has three doubles, read as reals and compared with \<open>==\<close> component by
  component. The two loops of \<open>remove_duplicates\<close> run over the indices of \<open>ip1\<close>; the
  code reads \<open>ip2[i]\<close> without a check, so the model says what the code does only where
  \<open>ip2\<close> is as long as \<open>ip1\<close>.
\<close>

type_synonym Vector3 = "real \<times> real \<times> real"

text \<open>The inner loop: \<open>bad_entry\<close> after \<open>j\<close> has run over all indices.\<close>

definition bad_entry :: "Vector3 list \<Rightarrow> Vector3 list \<Rightarrow> nat \<Rightarrow> bool" where
  "bad_entry ip1 ip2 i =
     foldl (\<lambda>bad j. if i \<noteq> j \<and> (ip1 ! i = ip1 ! j \<or> ip2 ! i = ip2 ! j) then True else bad)
       False [0 ..< length ip1]"

definition remove_duplicates :: "Vector3 list \<Rightarrow> Vector3 list \<Rightarrow> Vector3 list \<times> Vector3 list" where
  "remove_duplicates ip1 ip2 =
     foldl (\<lambda>(new_ip1, new_ip2) i.
              if \<not> bad_entry ip1 ip2 i then (new_ip1 @ [ip1 ! i], new_ip2 @ [ip2 ! i])
              else (new_ip1, new_ip2))
       ([], []) [0 ..< length ip1]"

text \<open>Index \<open>i\<close> shares a coordinate, on either side, with another index.\<close>

definition shares_coordinate :: "Vector3 list \<Rightarrow> Vector3 list \<Rightarrow> nat \<Rightarrow> bool" where
  "shares_coordinate ip1 ip2 i =
     list_ex (\<lambda>j. j \<noteq> i \<and> (ip1 ! i = ip1 ! j \<or> ip2 ! i = ip2 ! j)) [0 ..< length ip1]"

definition surviving :: "Vector3 list \<Rightarrow> Vector3 list \<Rightarrow> nat list" where
  "surviving ip1 ip2 = filter (\<lambda>i. \<not> shares_coordinate ip1 ip2 i) [0 ..< length ip1]"

subsection \<open>Files, events and failures\<close>

text \<open>
  An image is its rows of gray values; a matrix its rows; a disparity map has cells
  \<open>PixelDisparity<float>\<close>, missing or a shift \<open>(h, v)\<close>.
\<close>

type_synonym image = "real list list"

type_synonym matrix = "real list list"

type_synonym disparity = "(real \<times> real) option list list"

definition img_rows :: "image \<Rightarrow> nat" where
  "img_rows img = length img"

definition img_cols :: "image \<Rightarrow> nat" where
  "img_cols img = (case img of [] \<Rightarrow> 0 | r # _ \<Rightarrow> length r)"

definition identity_matrix :: "nat \<Rightarrow> matrix" where
  "identity_matrix n = map (\<lambda>i. map (\<lambda>j. if i = j then 1 else 0) [0 ..< n]) [0 ..< n]"

record InterestPoint =
  ip_x :: real
  ip_y :: real
  ip_descriptor :: "real list"

text \<open>Of a \<open>GeoReference\<close> the session reads the transform only.\<close>

record GeoReference =
  transform :: matrix

text \<open>
  What a path holds. An image file carries its pixels and the transform of the
  georeference stored with it (the identity when it has none).
\<close>

datatype disk_file =
    ImageFile image matrix
  | IpFile "InterestPoint list"
  | MatchFile "InterestPoint list" "InterestPoint list"
  | MatrixFile matrix
  | DisparityFile disparity

text \<open>The calls whose order and presence the claims are about.\<close>

datatype event =
    EvDetect string
  | EvDescribe string
  | EvMatcher
  | EvReadIp string
  | EvWriteIp string
  | EvReadMatch string
  | EvWriteMatch string
  | EvRansac
  | EvAlignmentWarning
  | EvReadMatrix string
  | EvWriteMatrix string
  | EvCouldNotReadMatrix string
  | EvWriteImage string

record world =
  files :: "string \<rightharpoonup> disk_file"
  trace :: "event list"

text \<open>
  A step either returns a value, or throws, or ends the process with \<open>exit\<close>; in each
  case it leaves a world behind.
\<close>

datatype abort = Throw exn | Exit int

type_synonym 'a io = "world \<Rightarrow> (abort + 'a) \<times> world"

definition return_io :: "'a \<Rightarrow> 'a io" where
  "return_io x = (\<lambda>w. (Inr x, w))"

definition bind_io :: "'a io \<Rightarrow> ('a \<Rightarrow> 'b io) \<Rightarrow> 'b io" where
  "bind_io m f = (\<lambda>w. case m w of (Inl a, w') \<Rightarrow> (Inl a, w') | (Inr x, w') \<Rightarrow> f x w')"

definition emit :: "event \<Rightarrow> unit io" where
  "emit e = (\<lambda>w. (Inr (), w\<lparr>trace := trace w @ [e]\<rparr>))"

definition exit_io :: "int \<Rightarrow> 'a io" where
  "exit_io status = (\<lambda>w. (Inl (Exit status), w))"

text \<open>\<open>try { m } catch (...) { h }\<close> and \<open>try { m } catch (vw::IOErr &e) { h }\<close>.\<close>

definition catch_all :: "'a io \<Rightarrow> 'a io \<Rightarrow> 'a io" where
  "catch_all m h = (\<lambda>w. case m w of (Inl (Throw e), w') \<Rightarrow> h w' | other \<Rightarrow> other)"

definition catch_IOErr :: "'a io \<Rightarrow> 'a io \<Rightarrow> 'a io" where
  "catch_IOErr m h = (\<lambda>w. case m w of (Inl (Throw IOErr), w') \<Rightarrow> h w' | other \<Rightarrow> other)"

text \<open>
  The file routines of the library. A read of a path that is absent, or that holds
  something else, throws \<open>IOErr\<close>; writes are taken to succeed.
\<close>

definition exists_file :: "world \<Rightarrow> string \<Rightarrow> bool" where
  "exists_file w p = (files w p \<noteq> None)"

definition DiskImageView :: "string \<Rightarrow> image io" where
  "DiskImageView p =
     (\<lambda>w. case files w p of Some (ImageFile img g) \<Rightarrow> (Inr img, w) | _ \<Rightarrow> (Inl (Throw IOErr), w))"

definition DiskImageView_disparity :: "string \<Rightarrow> disparity io" where
  "DiskImageView_disparity p =
     (\<lambda>w. case files w p of Some (DisparityFile d) \<Rightarrow> (Inr d, w) | _ \<Rightarrow> (Inl (Throw IOErr), w))"

definition read_binary_ip_file :: "string \<Rightarrow> InterestPoint list io" where
  "read_binary_ip_file p =
     (\<lambda>w. case files w p of
             Some (IpFile ips) \<Rightarrow> (Inr ips, w\<lparr>trace := trace w @ [EvReadIp p]\<rparr>)
           | _ \<Rightarrow> (Inl (Throw IOErr), w\<lparr>trace := trace w @ [EvReadIp p]\<rparr>))"

definition write_binary_ip_file :: "string \<Rightarrow> InterestPoint list \<Rightarrow> unit io" where
  "write_binary_ip_file p ips =
     (\<lambda>w. (Inr (), w\<lparr>files := (files w)(p \<mapsto> IpFile ips), trace := trace w @ [EvWriteIp p]\<rparr>))"

definition read_binary_match_file :: "string \<Rightarrow> (InterestPoint list \<times> InterestPoint list) io" where
  "read_binary_match_file p =
     (\<lambda>w. case files w p of
             Some (MatchFile a b) \<Rightarrow> (Inr (a, b), w\<lparr>trace := trace w @ [EvReadMatch p]\<rparr>)
           | _ \<Rightarrow> (Inl (Throw IOErr), w\<lparr>trace := trace w @ [EvReadMatch p]\<rparr>))"

definition write_binary_match_file ::
  "string \<Rightarrow> InterestPoint list \<Rightarrow> InterestPoint list \<Rightarrow> unit io" where
  "write_binary_match_file p a b =
     (\<lambda>w. (Inr (), w\<lparr>files := (files w)(p \<mapsto> MatchFile a b), trace := trace w @ [EvWriteMatch p]\<rparr>))"

definition read_matrix :: "string \<Rightarrow> matrix io" where
  "read_matrix p =
     (\<lambda>w. case files w p of
             Some (MatrixFile m) \<Rightarrow> (Inr m, w\<lparr>trace := trace w @ [EvReadMatrix p]\<rparr>)
           | _ \<Rightarrow> (Inl (Throw IOErr), w\<lparr>trace := trace w @ [EvReadMatrix p]\<rparr>))"

definition write_matrix :: "string \<Rightarrow> matrix \<Rightarrow> unit io" where
  "write_matrix p m =
     (\<lambda>w. (Inr (), w\<lparr>files := (files w)(p \<mapsto> MatrixFile m), trace := trace w @ [EvWriteMatrix p]\<rparr>))"

definition write_image :: "string \<Rightarrow> image \<Rightarrow> unit io" where
  "write_image p img =
     (\<lambda>w. (Inr (), w\<lparr>files := (files w)(p \<mapsto> ImageFile img (identity_matrix 3)),
                     trace := trace w @ [EvWriteImage p]\<rparr>))"

definition write_disparity :: "string \<Rightarrow> disparity \<Rightarrow> unit io" where
  "write_disparity p d =
     (\<lambda>w. (Inr (), w\<lparr>files := (files w)(p \<mapsto> DisparityFile d), trace := trace w @ [EvWriteImage p]\<rparr>))"

subsection \<open>The collaborators\<close>

text \<open>
  The routines of the Vision Workbench the session calls, as parameters: the detector (with
  its operator and its budget of 500 points), the descriptor generator, the matcher (with its
  threshold 0.8), the conversion to vectors, the robust fit (which throws when it fails),
  the normalisation of an image between \<open>lo\<close> and \<open>hi\<close> after the special pixels are
  removed, the scan for the least and greatest valid value, the warps of an image, and the
  point maps of a homography and of a change of georeference.
\<close>

record collaborators =
  vw_detect_interest_points :: "image \<Rightarrow> InterestPoint list"
  vw_descriptor :: "image \<Rightarrow> InterestPoint list \<Rightarrow> InterestPoint list"
  vw_matcher :: "InterestPoint list \<Rightarrow> InterestPoint list \<Rightarrow> InterestPoint list \<times> InterestPoint list"
  vw_iplist_to_vectorlist :: "InterestPoint list \<Rightarrow> Vector3 list"
  vw_ransac :: "Vector3 list \<Rightarrow> Vector3 list \<Rightarrow> exn + matrix"
  vw_normalize :: "real \<Rightarrow> real \<Rightarrow> image \<Rightarrow> image"
  vw_isis_min_max :: "image \<Rightarrow> real \<times> real"
  vw_geo_transform :: "GeoReference \<Rightarrow> GeoReference \<Rightarrow> image \<Rightarrow> image"
  vw_crop :: "image \<Rightarrow> nat \<Rightarrow> nat \<Rightarrow> image"
  vw_homography_transform :: "matrix \<Rightarrow> image \<Rightarrow> nat \<Rightarrow> nat \<Rightarrow> image"
  vw_homography_point :: "matrix \<Rightarrow> real \<times> real \<Rightarrow> real \<times> real"
  vw_geo_point :: "GeoReference \<Rightarrow> GeoReference \<Rightarrow> real \<times> real \<Rightarrow> real \<times> real"

definition detect_interest_points :: "collaborators \<Rightarrow> string \<Rightarrow> image \<Rightarrow> InterestPoint list io" where
  "detect_interest_points vw p img =
     (\<lambda>w. (Inr (vw_detect_interest_points vw img), w\<lparr>trace := trace w @ [EvDetect p]\<rparr>))"

definition descriptor :: "collaborators \<Rightarrow> string \<Rightarrow> image \<Rightarrow> InterestPoint list \<Rightarrow> InterestPoint list io" where
  "descriptor vw p img ips =
     (\<lambda>w. (Inr (vw_descriptor vw img ips), w\<lparr>trace := trace w @ [EvDescribe p]\<rparr>))"

definition matcher ::
  "collaborators \<Rightarrow> InterestPoint list \<Rightarrow> InterestPoint list
   \<Rightarrow> (InterestPoint list \<times> InterestPoint list) io" where
  "matcher vw a b = (\<lambda>w. (Inr (vw_matcher vw a b), w\<lparr>trace := trace w @ [EvMatcher]\<rparr>))"

definition ransac :: "collaborators \<Rightarrow> Vector3 list \<Rightarrow> Vector3 list \<Rightarrow> matrix io" where
  "ransac vw a b =
     (\<lambda>w. case vw_ransac vw a b of
             Inl e \<Rightarrow> (Inl (Throw e), w\<lparr>trace := trace w @ [EvRansac]\<rparr>)
           | Inr T \<Rightarrow> (Inr T, w\<lparr>trace := trace w @ [EvRansac]\<rparr>))"

subsection \<open>File names\<close>

text \<open>
  \<open>rfind\<close> gives the last position of the character, or \<open>npos\<close> (which the code reads
  as the \<open>int\<close> -1); \<open>erase\<close> from that position on keeps what is before it.
\<close>

definition rfind :: "string \<Rightarrow> char \<Rightarrow> nat option" where
  "rfind s c = (case filter (\<lambda>i. s ! i = c) (rev [0 ..< length s]) of [] \<Rightarrow> None | i # _ \<Rightarrow> Some i)"

definition prefix_from_filename :: "string \<Rightarrow> string" where
  "prefix_from_filename filename =
     (case rfind filename (CHR ''.'') of None \<Rightarrow> filename | Some index \<Rightarrow> take index filename)"

definition match_file_name :: "string \<Rightarrow> string \<Rightarrow> string" where
  "match_file_name input_file1 input_file2 =
     prefix_from_filename input_file1 @ ''__'' @ prefix_from_filename input_file2 @ ''.match''"

definition vwip_file_name :: "string \<Rightarrow> string" where
  "vwip_file_name input_file = prefix_from_filename input_file @ ''.vwip''"

subsection \<open>The alignment of two images\<close>

text \<open>
  Lines 92 to 174 of \<open>determine_image_alignment\<close>: the matched interest points, from the
  match file, or from the two interest point files, or from the images.
\<close>

definition matched_interest_points ::
  "collaborators \<Rightarrow> string \<Rightarrow> string \<Rightarrow> real \<Rightarrow> real
   \<Rightarrow> (InterestPoint list \<times> InterestPoint list) io" where
  "matched_interest_points vw input_file1 input_file2 lo hi =
     (\<lambda>w.
        if exists_file w (match_file_name input_file1 input_file2)
        then read_binary_match_file (match_file_name input_file1 input_file2) w
        else
          bind_io
            (if exists_file w (vwip_file_name input_file1) \<and> exists_file w (vwip_file_name input_file2)
             then
               bind_io (read_binary_ip_file (vwip_file_name input_file1)) (\<lambda>ip1_copy.
               bind_io (read_binary_ip_file (vwip_file_name input_file2)) (\<lambda>ip2_copy.
               return_io (ip1_copy, ip2_copy)))
             else
               bind_io (DiskImageView input_file1) (\<lambda>left_disk_image.
               bind_io (DiskImageView input_file2) (\<lambda>right_disk_image.
               let left_image = vw_normalize vw lo hi left_disk_image;
                   right_image = vw_normalize vw lo hi right_disk_image
               in
               bind_io (detect_interest_points vw input_file1 left_image) (\<lambda>ip1.
               bind_io (detect_interest_points vw input_file2 right_image) (\<lambda>ip2.
               bind_io (descriptor vw input_file1 left_image ip1) (\<lambda>ip1.
               bind_io (descriptor vw input_file2 right_image ip2) (\<lambda>ip2.
               bind_io (write_binary_ip_file (vwip_file_name input_file1) ip1) (\<lambda>_.
               bind_io (write_binary_ip_file (vwip_file_name input_file2) ip2) (\<lambda>_.
               bind_io (read_binary_ip_file (vwip_file_name input_file1)) (\<lambda>ip1_copy.
               bind_io (read_binary_ip_file (vwip_file_name input_file2)) (\<lambda>ip2_copy.
               return_io (ip1_copy, ip2_copy))))))))))))
            (\<lambda>(ip1_copy, ip2_copy).
               bind_io (matcher vw ip1_copy ip2_copy) (\<lambda>(matched_ip1, matched_ip2).
               bind_io (write_binary_match_file (match_file_name input_file1 input_file2)
                          matched_ip1 matched_ip2) (\<lambda>_.
               return_io (matched_ip1, matched_ip2))))
            w)"

text \<open>Lines 176 to 202: the duplicates are removed and the homography is fitted.\<close>

definition fit_alignment ::
  "collaborators \<Rightarrow> InterestPoint list \<Rightarrow> InterestPoint list \<Rightarrow> matrix io" where
  "fit_alignment vw matched_ip1 matched_ip2 =
     (case remove_duplicates (vw_iplist_to_vectorlist vw matched_ip1)
                             (vw_iplist_to_vectorlist vw matched_ip2) of
        (ransac_ip1, ransac_ip2) \<Rightarrow>
          catch_all (ransac vw ransac_ip2 ransac_ip1)
            (bind_io (emit EvAlignmentWarning) (\<lambda>_. return_io (identity_matrix 3))))"

definition determine_image_alignment ::
  "collaborators \<Rightarrow> string \<Rightarrow> string \<Rightarrow> real \<Rightarrow> real \<Rightarrow> matrix io" where
  "determine_image_alignment vw input_file1 input_file2 lo hi =
     bind_io (matched_interest_points vw input_file1 input_file2 lo hi)
       (\<lambda>(matched_ip1, matched_ip2). fit_alignment vw matched_ip1 matched_ip2)"

subsection \<open>The hooks of the session\<close>

record session =
  m_out_prefix :: string
  m_left_image_file :: string
  m_right_image_file :: string

record stereo_settings =
  keypoint_alignment :: bool

text \<open>
  The two local georeferences are default constructed and never read from the images (the
  code that read them is commented out). What the default constructor of the library gives
  is the parameter \<open>georef_default\<close>.
\<close>

definition pre_preprocessing_hook ::
  "collaborators \<Rightarrow> stereo_settings \<Rightarrow> session \<Rightarrow> GeoReference \<Rightarrow> string \<Rightarrow> string
   \<Rightarrow> (string \<times> string) io" where
  "pre_preprocessing_hook vw settings self georef_default input_file1 input_file2 =
     bind_io (DiskImageView input_file1) (\<lambda>left_disk_image.
     bind_io (DiskImageView input_file2) (\<lambda>right_disk_image.
     let output_file1 = m_out_prefix self @ ''-L.tif'';
         output_file2 = m_out_prefix self @ ''-R.tif'';
         input_georef1 = georef_default;
         input_georef2 = georef_default;
         lo = min (fst (vw_isis_min_max vw left_disk_image)) (fst (vw_isis_min_max vw right_disk_image));
         hi = min (snd (vw_isis_min_max vw left_disk_image)) (snd (vw_isis_min_max vw right_disk_image))
     in
       if transform input_georef1 \<noteq> identity_matrix 3 \<and> transform input_georef2 \<noteq> identity_matrix 3
       then
         let common_georef = input_georef1;
             Limg = vw_normalize vw lo hi left_disk_image;
             Rimg = vw_crop vw (vw_geo_transform vw input_georef2 common_georef
                                  (vw_normalize vw lo hi right_disk_image))
                      (img_cols left_disk_image) (img_rows left_disk_image)
         in
           bind_io (write_image output_file1 Limg) (\<lambda>_.
           bind_io (write_image output_file2 Rimg) (\<lambda>_.
           return_io (output_file1, output_file2)))
       else
         bind_io (if keypoint_alignment settings
                  then determine_image_alignment vw input_file1 input_file2 lo hi
                  else return_io (identity_matrix 3)) (\<lambda>align_matrix.
         bind_io (write_matrix (m_out_prefix self @ ''-align.exr'') align_matrix) (\<lambda>_.
         let Limg = vw_normalize vw lo hi left_disk_image;
             Rimg = vw_homography_transform vw align_matrix (vw_normalize vw lo hi right_disk_image)
                      (img_cols left_disk_image) (img_rows left_disk_image)
         in
           bind_io (write_image output_file1 Limg) (\<lambda>_.
           bind_io (write_image output_file2 Rimg) (\<lambda>_.
           return_io (output_file1, output_file2)))))))"

text \<open>
  Modelled from the spec: \<open>transform_disparities\<close> is a routine of the Vision Workbench,
  not among the sources. The specification says that the transform is applied as a
  coordinate transform to every disparity vector: the target of the vector at
  \<open>(col, row)\<close> is mapped, and the vector becomes the way from \<open>(col, row)\<close> to the new
  target.
\<close>

definition transform_disparities :: "(real \<times> real \<Rightarrow> real \<times> real) \<Rightarrow> disparity \<Rightarrow> disparity" where
  "transform_disparities point_map d =
     map (\<lambda>(row, cells).
            map (\<lambda>(col, px).
                   case px of
                     None \<Rightarrow> None
                   | Some (h, v) \<Rightarrow>
                       (case point_map (real col + h, real row + v) of
                          (x, y) \<Rightarrow> Some (x - real col, y - real row)))
              (List.enumerate 0 cells))
       (List.enumerate 0 d)"

text \<open>A target lies outside an image of the given width and height.\<close>

definition outside_bounds :: "real \<times> real \<Rightarrow> nat \<Rightarrow> nat \<Rightarrow> bool" where
  "outside_bounds target cols rows =
     (fst target < 0 \<or> real cols \<le> fst target \<or> snd target < 0 \<or> real rows \<le> snd target)"

text \<open>
  Modelled from the spec: \<open>remove_invalid_pixels\<close> is a routine of the Vision Workbench,
  not among the sources. The specification says that a vector is marked invalid when its
  target falls outside the pixel bounds of the second image.
\<close>

definition remove_invalid_pixels :: "disparity \<Rightarrow> nat \<Rightarrow> nat \<Rightarrow> disparity" where
  "remove_invalid_pixels d cols rows =
     map (\<lambda>(row, cells).
            map (\<lambda>(col, px).
                   case px of
                     None \<Rightarrow> None
                   | Some (h, v) \<Rightarrow>
                       if outside_bounds (real col + h, real row + v) cols rows then None
                       else Some (h, v))
              (List.enumerate 0 cells))
       (List.enumerate 0 d)"

text \<open>
  The point-cloud hook, with the same two default constructed georeferences. \<open>exit(1)\<close>
  ends the process where the matrix cannot be read.
\<close>

definition pre_pointcloud_hook ::
  "collaborators \<Rightarrow> session \<Rightarrow> GeoReference \<Rightarrow> string \<Rightarrow> string io" where
  "pre_pointcloud_hook vw self georef_default input_file =
     bind_io (DiskImageView_disparity input_file) (\<lambda>disparity_map.
     let output_file = m_out_prefix self @ ''-F-corrected.exr'';
         input_georef1 = georef_default;
         input_georef2 = georef_default
     in
       bind_io
         (if transform input_georef1 \<noteq> identity_matrix 3 \<and> transform input_georef2 \<noteq> identity_matrix 3
          then return_io (transform_disparities (vw_geo_point vw input_georef2 input_georef1) disparity_map)
          else
            bind_io (catch_IOErr (read_matrix (m_out_prefix self @ ''-align.exr''))
                       (bind_io (emit (EvCouldNotReadMatrix (m_out_prefix self @ ''-align.exr'')))
                          (\<lambda>_. exit_io 1))) (\<lambda>align_matrix.
            let result = transform_disparities (vw_homography_point vw align_matrix) disparity_map
            in
              bind_io (DiskImageView (m_right_image_file self)) (\<lambda>right_disk_image.
              return_io (remove_invalid_pixels result (img_cols right_disk_image)
                           (img_rows right_disk_image)))))
         (\<lambda>result.
            bind_io (write_disparity output_file result) (\<lambda>_. return_io output_file)))"

subsection \<open>Vocabulary for the statements about the session\<close>

text \<open>The events a step added to the trace.\<close>

definition new_events :: "world \<Rightarrow> world \<Rightarrow> event list" where
  "new_events w w' = drop (length (trace w)) (trace w')"

text \<open>
  What the robust fit is called on and gives: the vectors of the matches after the
  duplicates are removed, those of the second image first.
\<close>

definition fitted :: "collaborators \<Rightarrow> InterestPoint list \<Rightarrow> InterestPoint list \<Rightarrow> exn + matrix" where
  "fitted vw matched_ip1 matched_ip2 =
     vw_ransac vw
       (snd (remove_duplicates (vw_iplist_to_vectorlist vw matched_ip1) (vw_iplist_to_vectorlist vw matched_ip2)))
       (fst (remove_duplicates (vw_iplist_to_vectorlist vw matched_ip1) (vw_iplist_to_vectorlist vw matched_ip2)))"

text \<open>The joint normalisation range of the two images, as \<open>pre_preprocessing_hook\<close> computes it.\<close>

definition joint_lo :: "collaborators \<Rightarrow> image \<Rightarrow> image \<Rightarrow> real" where
  "joint_lo vw left right = min (fst (vw_isis_min_max vw left)) (fst (vw_isis_min_max vw right))"

definition joint_hi :: "collaborators \<Rightarrow> image \<Rightarrow> image \<Rightarrow> real" where
  "joint_hi vw left right = min (snd (vw_isis_min_max vw left)) (snd (vw_isis_min_max vw right))"

text \<open>The path holds a matrix that \<open>read_matrix\<close> can read.\<close>

definition readable_matrix :: "world \<Rightarrow> string \<Rightarrow> bool" where
  "readable_matrix w p = (case files w p of Some (MatrixFile M) \<Rightarrow> True | _ \<Rightarrow> False)"

subsection \<open>Concrete runs of the session\<close>

text \<open>
  Six matches: indices 0 and 2 share their first coordinate, indices 1 and 4 their second.
\<close>

definition example_ip1 :: "Vector3 list" where
  "example_ip1 = [(0, 0, 1), (1, 1, 1), (0, 0, 1), (2, 2, 1), (3, 3, 1), (4, 4, 1)]"

definition example_ip2 :: "Vector3 list" where
  "example_ip2 = [(5, 5, 1), (6, 6, 1), (7, 7, 1), (8, 8, 1), (6, 6, 1), (9, 9, 1)]"

text \<open>
  Collaborators that find one interest point in every image, match everything, never fit
  a homography, leave images as they are and move a point one pixel to the right.
\<close>

definition example_point :: InterestPoint where
  "example_point = \<lparr>ip_x = 0, ip_y = 0, ip_descriptor = []\<rparr>"

definition example_vw :: collaborators where
  "example_vw =
     \<lparr>vw_detect_interest_points = (\<lambda>img. [example_point]),
      vw_descriptor = (\<lambda>img ips. ips),
      vw_matcher = (\<lambda>a b. (a, b)),
      vw_iplist_to_vectorlist = map (\<lambda>p. (ip_x p, ip_y p, 1)),
      vw_ransac = (\<lambda>a b. Inl OtherErr),
      vw_normalize = (\<lambda>lo hi img. img),
      vw_isis_min_max = (\<lambda>img. (0, 1)),
      vw_geo_transform = (\<lambda>src dst img. img),
      vw_crop = (\<lambda>img cols rows. img),
      vw_homography_transform = (\<lambda>M img cols rows. img),
      vw_homography_point = (\<lambda>M p. (fst p + 1, snd p)),
      vw_geo_point = (\<lambda>src dst p. p)\<rparr>"

definition example_session :: session where
  "example_session =
     \<lparr>m_out_prefix = ''out'', m_left_image_file = ''left.cub'', m_right_image_file = ''right.cub''\<rparr>"

text \<open>
  Two images that both carry a georeference which is not the identity; the same with the
  match file of the pair, with the two interest point files, with a disparity map, and with
  a disparity map and the alignment matrix.
\<close>

definition scale2 :: matrix where
  "scale2 = [[2, 0, 0], [0, 2, 0], [0, 0, 1]]"

definition example_world :: world where
  "example_world =
     \<lparr>files = [''left.cub'' \<mapsto> ImageFile [[0, 1]] scale2, ''right.cub'' \<mapsto> ImageFile [[1, 0]] scale2],
      trace = []\<rparr>"

definition cached_world :: world where
  "cached_world =
     \<lparr>files = [''left.cub'' \<mapsto> ImageFile [[0, 1]] scale2, ''right.cub'' \<mapsto> ImageFile [[1, 0]] scale2,
               ''left__right.match'' \<mapsto> MatchFile [example_point] [example_point]],
      trace = []\<rparr>"


definition disparity_world :: world where
  "disparity_world =
     \<lparr>files = [''left.cub'' \<mapsto> ImageFile [[0, 1]] scale2, ''right.cub'' \<mapsto> ImageFile [[1, 0]] scale2,
               ''out-F.exr'' \<mapsto> DisparityFile [[Some (0, 0), Some (0, 0), None]]],
      trace = []\<rparr>"

definition aligned_world :: world where
  "aligned_world =
     \<lparr>files = [''left.cub'' \<mapsto> ImageFile [[0, 1]] scale2, ''right.cub'' \<mapsto> ImageFile [[1, 0]] scale2,
               ''out-F.exr'' \<mapsto> DisparityFile [[Some (0, 0), Some (0, 0), None]],
               ''out-align.exr'' \<mapsto> MatrixFile (identity_matrix 3)],
      trace = []\<rparr>"

section \<open>Properties of the running standard deviation\<close>

lemma push_all_snoc: "push_all s (xs @ [x]) = Push (push_all s xs) x"
  by (simp add: push_all_def)

lemma welford_all_snoc: "welford_all (xs @ [x]) = welford_push (welford_all xs) x"
  by (simp add: welford_all_def)

lemma welford_count: "w_count (welford_all xs) = length xs"
  by (induction xs rule: rev_induct)
     (simp_all add: welford_all_snoc welford_push_def Let_def, simp add: welford_all_def welford_init_def)

lemma push_all_count: "m_n s = 0 \<Longrightarrow> m_n (push_all s xs) = int (length xs)"
  by (induction xs rule: rev_induct)
     (simp_all add: push_all_snoc Push_def Let_def, simp add: push_all_def)

text \<open>
  The coupling between the class and the specification's triple after at least one push:
  both means are the running mean, \<open>m_oldS\<close> is the running sum, and \<open>m_newS\<close> is too
  from the second push on (after the first push it still holds what the storage held).
\<close>

lemma push_all_welford:
  assumes "m_n s = 0" and "xs \<noteq> []"
  shows "m_newM (push_all s xs) = w_mean (welford_all xs)
       \<and> m_oldM (push_all s xs) = w_mean (welford_all xs)
       \<and> m_oldS (push_all s xs) = w_sumSq (welford_all xs)
       \<and> (1 < length xs \<longrightarrow> m_newS (push_all s xs) = w_sumSq (welford_all xs))"
  using assms(2)
proof (induction xs rule: rev_induct)
  case Nil
  then show ?case by simp
next
  case (snoc x xs)
  show ?case
  proof (cases "xs = []")
    case True
    then show ?thesis
      using assms(1)
      by (simp add: push_all_def welford_all_def welford_init_def Push_def welford_push_def Let_def)
  next
    case False
    then have len: "0 < length xs" by simp
    have n: "m_n (push_all s xs) = int (length xs)"
      using assms(1) by (rule push_all_count)
    have c: "w_count (welford_all xs) = length xs"
      by (rule welford_count)
    from snoc.IH [OF False] len n c show ?thesis
      by (simp add: push_all_snoc welford_all_snoc Push_def welford_push_def Let_def)
  qed
qed

lemma Mean_push_all:
  assumes "m_n s = 0"
  shows "Mean (push_all s xs) = w_mean (welford_all xs)"
proof (cases "xs = []")
  case True
  then show ?thesis
    using assms by (simp add: Mean_def push_all_def welford_all_def welford_init_def)
next
  case False
  then show ?thesis
    using push_all_welford [OF assms False] push_all_count [OF assms, of xs]
    by (simp add: Mean_def)
qed

lemma Variance_push_all:
  assumes "m_n s = 0"
  shows "Variance (push_all s xs) = welford_variance (welford_all xs)"
proof (cases "1 < length xs")
  case True
  then have ne: "xs \<noteq> []" by auto
  have "int (length xs) - 1 = int (length xs - 1)"
    using True by simp
  then show ?thesis
    using push_all_welford [OF assms ne] push_all_count [OF assms, of xs] True
    by (simp add: Variance_def welford_variance_def welford_count)
next
  case False
  then show ?thesis
    using push_all_count [OF assms, of xs]
    by (simp add: Variance_def welford_variance_def welford_count)
qed

lemma ctor_count: "m_n (RunningStandardDeviation_ctor storage) = 0"
  by (simp add: RunningStandardDeviation_ctor_def)

lemma Clear_count: "m_n (Clear s) = 0"
  by (simp add: Clear_def)

lemma welford_mean_is_average:
  "xs \<noteq> [] \<Longrightarrow> w_mean (welford_all xs) = sum_list xs / real (length xs)"
proof (induction xs rule: rev_induct)
  case Nil
  then show ?case by simp
next
  case (snoc x xs)
  show ?case
  proof (cases "xs = []")
    case True
    then show ?thesis
      by (simp add: welford_all_def welford_init_def welford_push_def Let_def)
  next
    case False
    then have len: "0 < real (length xs)" by simp
    from snoc.IH [OF False] len show ?thesis
      by (simp add: welford_all_snoc welford_push_def Let_def welford_count field_simps)
  qed
qed

lemma example_mean:
  "Mean (push_all (RunningStandardDeviation_ctor storage) [2, 4, 4, 4, 5, 5, 7, 9]) = 5"
  by (simp add: push_all_def RunningStandardDeviation_ctor_def Push_def Mean_def Let_def)

lemma example_variance:
  "Variance (push_all (RunningStandardDeviation_ctor storage) [2, 4, 4, 4, 5, 5, 7, 9]) = 32 / 7"
  by (simp add: push_all_def RunningStandardDeviation_ctor_def Push_def Variance_def Let_def)

text \<open>
  C1. The class implements the single-pass update of the specification: after any sequence
  of pushes on a new object (whatever its storage held), the count is the number of pushes,
  \<open>Mean\<close> is the running mean obtained by \<open>mean += (x - mean) / n\<close>, and \<open>Variance\<close>
  is the running sum \<open>sumSq += (x - oldMean) * (x - newMean)\<close> divided by \<open>n - 1\<close> when
  \<open>n > 1\<close> and 0 otherwise; \<open>Mean\<close> is 0 before any push; and pushing
  2, 4, 4, 4, 5, 5, 7, 9 gives mean 5 and variance 32/7.
\<close>

theorem RunningStandardDeviation_is_welford:
  "NumDataValues (push_all (RunningStandardDeviation_ctor storage) xs) = int (length xs)
   \<and> Mean (push_all (RunningStandardDeviation_ctor storage) xs) = w_mean (welford_all xs)
   \<and> Variance (push_all (RunningStandardDeviation_ctor storage) xs)
       = (if length xs > 1 then w_sumSq (welford_all xs) / real (length xs - 1) else 0)
   \<and> Mean (RunningStandardDeviation_ctor storage) = 0
   \<and> Mean (push_all (RunningStandardDeviation_ctor storage) [2, 4, 4, 4, 5, 5, 7, 9]) = 5
   \<and> Variance (push_all (RunningStandardDeviation_ctor storage) [2, 4, 4, 4, 5, 5, 7, 9]) = 32 / 7"
proof -
  have z: "m_n (RunningStandardDeviation_ctor storage) = 0"
    by (rule ctor_count)
  have "NumDataValues (push_all (RunningStandardDeviation_ctor storage) xs) = int (length xs)"
    using push_all_count [OF z] by (simp add: NumDataValues_def)
  moreover have "Mean (push_all (RunningStandardDeviation_ctor storage) xs) = w_mean (welford_all xs)"
    by (rule Mean_push_all [OF z])
  moreover have "Variance (push_all (RunningStandardDeviation_ctor storage) xs)
       = (if length xs > 1 then w_sumSq (welford_all xs) / real (length xs - 1) else 0)"
    using Variance_push_all [OF z, of xs] by (simp add: welford_variance_def welford_count)
  moreover have "Mean (RunningStandardDeviation_ctor storage) = 0"
    using z by (simp add: Mean_def)
  ultimately show ?thesis
    using example_mean [of storage] example_variance [of storage] by simp
qed

text \<open>
  C10. After \<open>Clear\<close> an accumulator answers as a new one does: for every sequence of
  pushes, \<open>NumDataValues\<close>, \<open>Mean\<close>, \<open>Variance\<close> and \<open>StandardDeviation\<close> are the
  same on the cleared object (whatever it held before) and on a newly constructed one
  (whatever its storage held), and before any push \<open>Mean\<close> and \<open>Variance\<close> are 0.
\<close>

theorem Clear_behaves_as_new:
  "NumDataValues (push_all (Clear s) xs)
     = NumDataValues (push_all (RunningStandardDeviation_ctor storage) xs)
   \<and> Mean (push_all (Clear s) xs) = Mean (push_all (RunningStandardDeviation_ctor storage) xs)
   \<and> Variance (push_all (Clear s) xs)
     = Variance (push_all (RunningStandardDeviation_ctor storage) xs)
   \<and> StandardDeviation (push_all (Clear s) xs)
     = StandardDeviation (push_all (RunningStandardDeviation_ctor storage) xs)
   \<and> Mean (Clear s) = 0 \<and> Variance (Clear s) = 0"
proof -
  have z: "m_n (RunningStandardDeviation_ctor storage) = 0"
    by (rule ctor_count)
  have c: "m_n (Clear s) = 0"
    by (rule Clear_count)
  have n: "NumDataValues (push_all (Clear s) xs)
     = NumDataValues (push_all (RunningStandardDeviation_ctor storage) xs)"
    by (simp add: NumDataValues_def push_all_count [OF z] push_all_count [OF c])
  have m: "Mean (push_all (Clear s) xs) = Mean (push_all (RunningStandardDeviation_ctor storage) xs)"
    by (simp add: Mean_push_all [OF z] Mean_push_all [OF c])
  have v: "Variance (push_all (Clear s) xs)
     = Variance (push_all (RunningStandardDeviation_ctor storage) xs)"
    by (simp add: Variance_push_all [OF z] Variance_push_all [OF c])
  have e: "Mean (Clear s) = 0 \<and> Variance (Clear s) = 0"
    using c by (simp add: Mean_def Variance_def)
  from n m v e show ?thesis
    by (simp add: StandardDeviation_def)
qed

section \<open>Properties of the offset estimator\<close>

lemma push_all_Cons: "push_all s (x # xs) = push_all (Push s x) xs"
  by (simp add: push_all_def)

lemma push_all_append: "push_all s (xs @ ys) = push_all (push_all s xs) ys"
  by (simp add: push_all_def)

lemma col_loop_eq:
  "col_loop cells (rs, cs, n, cx, cy) =
     (rs + sum_list (samples_y cells), cs + sum_list (samples_x cells),
      n + int (length (valid_cells cells)),
      push_all cx (samples_x cells), push_all cy (samples_y cells))"
proof (induction cells arbitrary: rs cs n cx cy)
  case Nil
  then show ?case by (simp add: samples_x_def samples_y_def push_all_def)
next
  case (Cons px rest)
  show ?case
  proof (cases px)
    case None
    then show ?thesis
      using Cons.IH by (simp add: samples_x_def samples_y_def)
  next
    case (Some v)
    then show ?thesis
      using Cons.IH by (cases v) (simp add: samples_x_def samples_y_def push_all_Cons Let_def)
  qed
qed

lemma samples_length: "length (samples_x cells) = length (valid_cells cells)"
  "length (samples_y cells) = length (valid_cells cells)"
  by (simp_all add: samples_x_def samples_y_def)

lemma samples_Nil: "(samples_x cells = []) = (valid_cells cells = [])"
  "(samples_y cells = []) = (valid_cells cells = [])"
  by (simp_all add: samples_x_def samples_y_def)

lemma row_loop_Cons:
  "row_loop (cells # rest) row w a =
     row_loop rest (Suc row) w
       (a\<lparr>stdCalcX := push_all (stdCalcX a) (samples_x cells),
          stdCalcY := push_all (stdCalcY a) (samples_y cells),
          rowOffsets := (rowOffsets a)[row := row_mean (samples_y cells)],
          colOffsets := (colOffsets a)[row := row_mean (samples_x cells)],
          totalNumValidPixels := totalNumValidPixels a + int (length (valid_cells cells)),
          numValidRows := numValidRows a + (if valid_cells cells = [] then 0 else 1),
          out := out a @
            (if w then [LogRow (int row) ((rowOffsets a)[row := row_mean (samples_y cells)] ! row)
                                         ((colOffsets a)[row := row_mean (samples_x cells)] ! row)]
             else [])\<rparr>)"
  by (simp add: col_loop_eq Let_def row_mean_def average_def samples_length samples_Nil)

lemma row_loop_stdCalc:
  "stdCalcX (row_loop dm row w a) = push_all (stdCalcX a) (all_samples_x dm)
   \<and> stdCalcY (row_loop dm row w a) = push_all (stdCalcY a) (all_samples_y dm)"
proof (induction dm arbitrary: row a)
  case Nil
  show ?case by (simp add: all_samples_x_def all_samples_y_def push_all_def)
next
  case (Cons cells rest)
  show ?case
    unfolding row_loop_Cons
    by (simp add: Cons.IH all_samples_x_def all_samples_y_def push_all_append)
qed

lemma row_loop_numValidRows:
  "numValidRows (row_loop dm row w a)
     = numValidRows a + int (length (filter (\<lambda>cells. valid_cells cells \<noteq> []) dm))"
proof (induction dm arbitrary: row a)
  case Nil
  show ?case by simp
next
  case (Cons cells rest)
  show ?case
    unfolding row_loop_Cons by (simp add: Cons.IH)
qed

lemma row_loop_totalNumValidPixels:
  "totalNumValidPixels (row_loop dm row w a)
     = totalNumValidPixels a + int (length (concat (map valid_cells dm)))"
proof (induction dm arbitrary: row a)
  case Nil
  show ?case by simp
next
  case (Cons cells rest)
  show ?case
    unfolding row_loop_Cons by (simp add: Cons.IH)
qed

lemma row_loop_offsets_length:
  "length (rowOffsets (row_loop dm row w a)) = length (rowOffsets a)
   \<and> length (colOffsets (row_loop dm row w a)) = length (colOffsets a)"
proof (induction dm arbitrary: row a)
  case Nil
  show ?case by simp
next
  case (Cons cells rest)
  show ?case
    unfolding row_loop_Cons by (simp add: Cons.IH)
qed


lemma row_loop_out:
  assumes "row + length dm \<le> length (rowOffsets a)" and "row + length dm \<le> length (colOffsets a)"
  shows "out (row_loop dm row w a)
           = out a @ (if w then map (\<lambda>(i, cells). LogRow (int i) (row_mean (samples_y cells))
                                                     (row_mean (samples_x cells)))
                                (List.enumerate row dm)
                      else [])"
  using assms
proof (induction dm arbitrary: row a)
  case Nil
  then show ?case by simp
next
  case (Cons cells rest)
  with Cons.IH [of "Suc row"] show ?case
    unfolding row_loop_Cons by simp
qed

lemma no_valid_rows_filter:
  "no_valid_rows dm = (length (filter (\<lambda>cells. valid_cells cells \<noteq> []) dm) = 0)"
  by (induction dm) (simp_all add: no_valid_rows_def)

lemma no_valid_rows_samples:
  "no_valid_rows dm = (all_samples_x dm = [])" "no_valid_rows dm = (all_samples_y dm = [])"
  by (induction dm) (simp_all add: no_valid_rows_def all_samples_x_def all_samples_y_def samples_Nil)

lemma accumulate_numValidRows:
  "(numValidRows (accumulate_offsets dm w sx sy) = 0) = no_valid_rows dm"
  "(0 < numValidRows (accumulate_offsets dm w sx sy)) = (\<not> no_valid_rows dm)"
  by (simp_all add: accumulate_offsets_def row_loop_numValidRows no_valid_rows_filter)

lemma filter_valid_Nil:
  "(filter (\<lambda>cells. valid_cells cells \<noteq> []) dm = []) = no_valid_rows dm"
  by (simp add: no_valid_rows_filter)

lemma accumulate_counts:
  "numValidRows (accumulate_offsets dm w sx sy)
     = int (length (filter (\<lambda>cells. valid_cells cells \<noteq> []) dm))"
  "totalNumValidPixels (accumulate_offsets dm w sx sy) = int (length (concat (map valid_cells dm)))"
  by (simp_all add: accumulate_offsets_def row_loop_numValidRows row_loop_totalNumValidPixels)

lemma accumulate_stdCalc:
  "stdCalcX (accumulate_offsets dm w sx sy) = push_all (RunningStandardDeviation_ctor sx) (all_samples_x dm)"
  "stdCalcY (accumulate_offsets dm w sx sy) = push_all (RunningStandardDeviation_ctor sy) (all_samples_y dm)"
  by (simp_all add: accumulate_offsets_def row_loop_stdCalc)

lemma Mean_is_average:
  "xs \<noteq> [] \<Longrightarrow> Mean (push_all (RunningStandardDeviation_ctor sx) xs) = average xs"
  by (simp add: Mean_push_all [OF ctor_count] welford_mean_is_average average_def)


lemma accumulate_offsets_out:
  "out (accumulate_offsets dm w sx sy)
     = (if w then LogHeader # map (\<lambda>(i, cells). LogRow (int i) (row_mean (samples_y cells))
                                                     (row_mean (samples_x cells)))
                                (List.enumerate 0 dm)
        else [])"
  using row_loop_out [of 0 dm _ w]
  by (simp add: accumulate_offsets_def)

text \<open>The ways through \<open>determineShifts\<close>: an input is missing, the row log cannot be opened, or the offsets are accumulated.\<close>

lemma determineShifts_left_missing:
  assumes "\<not> file_exists env (leftFilePath params)"
  shows "determineShifts env params dX0 dY0
           = \<lparr>ret = False, dX = dX0, dY = dY0,
              stdout = [ErrInputMissing (leftFilePath params)], logfile = None\<rparr>"
  using assms by (simp add: determineShifts_def)

lemma determineShifts_right_missing:
  assumes "file_exists env (leftFilePath params)" and "\<not> file_exists env (rightFilePath params)"
  shows "determineShifts env params dX0 dY0
           = \<lparr>ret = False, dX = dX0, dY = dY0,
              stdout = [ErrInputMissing (rightFilePath params)], logfile = None\<rparr>"
  using assms by (simp add: determineShifts_def)

lemma determineShifts_log_unwritable:
  assumes "file_exists env (leftFilePath params)" and "file_exists env (rightFilePath params)"
    and "rowLogFilePath params \<noteq> []" and "\<not> log_opens env (rowLogFilePath params)"
  shows "ret (determineShifts env params dX0 dY0) = False"
    and "dX (determineShifts env params dX0 dY0) = dX0"
    and "dY (determineShifts env params dX0 dY0) = dY0"
    and "last (stdout (determineShifts env params dX0 dY0)) = ErrLogCreate (rowLogFilePath params)"
    and "logfile (determineShifts env params dX0 dY0) = None"
  using assms by (simp_all add: determineShifts_def Let_def)

lemma determineShifts_reduced:
  assumes "file_exists env (leftFilePath params)" and "file_exists env (rightFilePath params)"
    and "rowLogFilePath params = [] \<or> log_opens env (rowLogFilePath params)"
  shows "ret (determineShifts env params dX0 dY0) = (\<not> no_valid_rows (correlated env))"
    and "dX (determineShifts env params dX0 dY0)
           = (if no_valid_rows (correlated env) then dX0
              else Mean (push_all (RunningStandardDeviation_ctor (storageX env)) (all_samples_x (correlated env))))"
    and "dY (determineShifts env params dX0 dY0)
           = (if no_valid_rows (correlated env) then dY0
              else Mean (push_all (RunningStandardDeviation_ctor (storageY env)) (all_samples_y (correlated env))))"
    and "last (stdout (determineShifts env params dX0 dY0))
           = (if no_valid_rows (correlated env) then ErrNoValidMatches
              else MsgValidPixels (int (length (concat (map valid_cells (correlated env)))))
                                  (int (length (filter (\<lambda>cells. valid_cells cells \<noteq> []) (correlated env)))))"
    and "logfile (determineShifts env params dX0 dY0)
           = (if rowLogFilePath params = [] then None
              else Some (LogHeader #
                     map (\<lambda>(i, cells). LogRow (int i) (row_mean (samples_y cells))
                                                     (row_mean (samples_x cells)))
                         (List.enumerate 0 (correlated env)) @
                     [LogRegistration, log_summary env]))"
  using assms
  by (auto simp: determineShifts_def Let_def accumulate_counts accumulate_stdCalc
        accumulate_offsets_out log_summary_def filter_valid_Nil)


lemmas example_defs = example_env_def example_params_def garbage_def





text \<open>
  C4 (amended). Provided both input files exist and the row log, if one is asked for, can be
  opened, \<open>determineShifts\<close> fails with the diagnostic for no valid matches, leaving the
  offsets as they were, if and only if no row of the disparity map has a valid cell; otherwise
  it succeeds and assigns the global offsets.
\<close>

theorem determineShifts_NoValidMatches:
  assumes "file_exists env (leftFilePath params)" and "file_exists env (rightFilePath params)"
    and "rowLogFilePath params = [] \<or> log_opens env (rowLogFilePath params)"
  shows "(fails_NoValidMatches (determineShifts env params dX0 dY0) = no_valid_rows (correlated env))
       \<and> (if no_valid_rows (correlated env)
          then \<not> ret (determineShifts env params dX0 dY0)
             \<and> last (stdout (determineShifts env params dX0 dY0)) = ErrNoValidMatches
             \<and> dX (determineShifts env params dX0 dY0) = dX0
             \<and> dY (determineShifts env params dX0 dY0) = dY0
          else ret (determineShifts env params dX0 dY0)
             \<and> dX (determineShifts env params dX0 dY0) = average (all_samples_x (correlated env))
             \<and> dY (determineShifts env params dX0 dY0) = average (all_samples_y (correlated env)))"
proof (cases "no_valid_rows (correlated env)")
  case True
  then show ?thesis
    by (simp add: fails_NoValidMatches_def determineShifts_reduced [OF assms])
next
  case False
  then have "all_samples_x (correlated env) \<noteq> []" and "all_samples_y (correlated env) \<noteq> []"
    by (simp_all add: no_valid_rows_samples(1) no_valid_rows_samples(2) [symmetric])
  with False show ?thesis
    by (simp add: fails_NoValidMatches_def determineShifts_reduced [OF assms] Mean_is_average)
qed

theorem determineShifts_NoValidMatches_witness:
  "fails_NoValidMatches (determineShifts no_match_env example_params 1 2)
   \<and> dX (determineShifts no_match_env example_params 1 2) = 1
   \<and> dY (determineShifts no_match_env example_params 1 2) = 2
   \<and> \<not> fails_NoValidMatches (determineShifts example_env example_params 1 2)
   \<and> dX (determineShifts example_env example_params 1 2) = 3"
  using determineShifts_NoValidMatches [of no_match_env example_params 1 2]
    determineShifts_NoValidMatches [of example_env example_params 1 2]
  by (simp add: no_match_env_def example_defs no_valid_rows_def all_samples_x_def samples_x_def average_def)

text \<open>
  Without the proviso the claim fails: with a row log that cannot be opened, a map with valid
  cells makes \<open>determineShifts\<close> fail, and not for want of matches.
\<close>

theorem determineShifts_unwritable_log_counterexample:
  "\<not> no_valid_rows (correlated unwritable_log_env)
   \<and> \<not> ret (determineShifts unwritable_log_env example_params 0 0)
   \<and> \<not> fails_NoValidMatches (determineShifts unwritable_log_env example_params 0 0)
   \<and> stdout (determineShifts unwritable_log_env example_params 0 0)
       = [MsgLoadingImages ''left.cub'' ''right.cub'', MsgInputImageSize, MsgSearchImageSize,
          MsgRunningCorrelation, MsgNonPyramidSearch, MsgAccumulating, ErrLogCreate ''rows.log'']"
  by (simp add: unwritable_log_env_def example_defs no_valid_rows_def determineShifts_def
        fails_NoValidMatches_def Let_def)

text \<open>
  C9 (as stated, refuted). The \<open>NULL\<close> summary is written before the check that aborts
  the run: with a row log and no valid cell the log ends with it.
\<close>

theorem NULL_summary_counterexample:
  "logfile (determineShifts no_match_env example_params 0 0)
     = Some [LogHeader, LogRow 0 0 0, LogRow 1 0 0, LogRegistration, LogAveragesNULL]"
  by (simp add: no_match_env_def example_defs determineShifts_def accumulate_offsets_def Let_def
        RunningStandardDeviation_ctor_def)

lemma member_rows:
  "LogAveragesNULL \<notin> (\<lambda>(i, cells). LogRow (int i) (f cells) (g cells)) ` rows"
  by auto

text \<open>
  C9 (amended). The \<open>NULL\<close> summary is written exactly when both inputs exist, a row log
  is asked for and opens, and no row has a valid cell; the run then fails for want of valid
  matches, after the log has been written.
\<close>

theorem NULL_summary_reached:
  "writes_NULL_summary (determineShifts env params dX0 dY0)
     = (file_exists env (leftFilePath params) \<and> file_exists env (rightFilePath params)
        \<and> rowLogFilePath params \<noteq> [] \<and> log_opens env (rowLogFilePath params)
        \<and> no_valid_rows (correlated env))
   \<and> (writes_NULL_summary (determineShifts env params dX0 dY0)
        \<longrightarrow> fails_NoValidMatches (determineShifts env params dX0 dY0))"
proof (cases "file_exists env (leftFilePath params)")
  case False
  then show ?thesis by (simp add: determineShifts_left_missing writes_NULL_summary_def)
next
  case l: True
  show ?thesis
  proof (cases "file_exists env (rightFilePath params)")
    case False
    with l show ?thesis by (simp add: determineShifts_right_missing writes_NULL_summary_def)
  next
    case r: True
    show ?thesis
    proof (cases "rowLogFilePath params = [] \<or> log_opens env (rowLogFilePath params)")
      case False
      with l r show ?thesis
        by (simp add: determineShifts_log_unwritable(5) writes_NULL_summary_def)
    next
      case True
      note red = determineShifts_reduced [OF l r True]
      show ?thesis
      proof (cases "rowLogFilePath params = []")
        case True
        then show ?thesis by (simp add: red(5) writes_NULL_summary_def)
      next
        case False
        with True have "log_opens env (rowLogFilePath params)" by simp
        with False l r show ?thesis
          by (simp add: red writes_NULL_summary_def fails_NoValidMatches_def log_summary_def
                member_rows)
      qed
    qed
  qed
qed

theorem NULL_summary_reached_witness:
  "writes_NULL_summary (determineShifts no_match_env example_params 0 0)
   \<and> fails_NoValidMatches (determineShifts no_match_env example_params 0 0)
   \<and> \<not> writes_NULL_summary (determineShifts example_env example_params 0 0)"
  using NULL_summary_reached [of no_match_env example_params 0 0]
    NULL_summary_reached [of example_env example_params 0 0]
  by (simp add: no_match_env_def example_defs no_valid_rows_def)

text \<open>
  C8. \<open>main\<close> ends with exit status 0 when a stage of \<open>determineShifts\<close> fails:
  with the left input missing, with a row log that cannot be opened, and with no valid
  match. The diagnostic is printed by \<open>determineShifts\<close>, and no offset is printed.
\<close>

theorem main_exit_status_on_failure:
  "main missing_input_env example_command_line 0 0 = (0, [ErrInputMissing ''left.cub''])
   \<and> fst (main unwritable_log_env example_command_line 0 0) = 0
   \<and> main no_match_env example_command_line 0 0
       = (0, [MsgLoadingImages ''left.cub'' ''right.cub'', MsgInputImageSize, MsgSearchImageSize,
              MsgRunningCorrelation, MsgNonPyramidSearch, MsgAccumulating,
              MsgLogCreated ''rows.log'', ErrNoValidMatches])"
  by (simp add: main_def handle_arguments_def example_command_line_def missing_input_env_def
        unwritable_log_env_def no_match_env_def example_defs determineShifts_def Let_def
        accumulate_offsets_def RunningStandardDeviation_ctor_def)

lemma main_exit_status:
  "handle_arguments parsed = Inr (ok, params) \<Longrightarrow> fst (main env parsed dX0 dY0) = 0"
  by (simp add: main_def Let_def)

lemma main_prints_offsets_only_on_success:
  assumes "handle_arguments parsed = Inr (True, params)"
  shows "snd (main env parsed dX0 dY0)
    = stdout (determineShifts env params dX0 dY0) @
      (if ret (determineShifts env params dX0 dY0)
       then [MsgMeanSampleOffset (dX (determineShifts env params dX0 dY0)),
             MsgMeanLineOffset (dY (determineShifts env params dX0 dY0))]
       else [])"
  using assms by (simp add: main_def Let_def)

section \<open>Properties of the ISIS stereo session\<close>

subsection \<open>Duplicate matches\<close>

lemma sticky_foldl:
  "foldl (\<lambda>bad j. if P j then True else bad) b js = (b \<or> list_ex P js)"
  by (induction js arbitrary: b) auto

lemma bad_entry_shares: "bad_entry ip1 ip2 i = shares_coordinate ip1 ip2 i"
  unfolding bad_entry_def shares_coordinate_def sticky_foldl
  by (auto simp: list_ex_iff)

lemma collect_foldl:
  "foldl (\<lambda>(a, b) i. if Q i then (a @ [f i], b @ [g i]) else (a, b)) (a0, b0) js
     = (a0 @ map f (filter Q js), b0 @ map g (filter Q js))"
  by (induction js arbitrary: a0 b0) auto

lemma remove_duplicates_eq:
  "remove_duplicates ip1 ip2
     = (map (\<lambda>i. ip1 ! i) (surviving ip1 ip2), map (\<lambda>i. ip2 ! i) (surviving ip1 ip2))"
  unfolding remove_duplicates_def surviving_def bad_entry_shares [abs_def]
  using collect_foldl [of "\<lambda>i. \<not> shares_coordinate ip1 ip2 i" "\<lambda>i. ip1 ! i" "\<lambda>i. ip2 ! i" "[]" "[]"]
  by simp

lemma surviving_set:
  "set (surviving ip1 ip2)
     = {i. i < length ip1 \<and> (\<forall>j < length ip1. j \<noteq> i \<longrightarrow> ip1 ! i \<noteq> ip1 ! j \<and> ip2 ! i \<noteq> ip2 ! j)}"
  by (auto simp: surviving_def shares_coordinate_def list_ex_iff)

lemma surviving_sorted: "sorted_wrt (<) (surviving ip1 ip2)"
  unfolding surviving_def by (rule sorted_wrt_filter) simp

lemma surviving_distinct: "distinct (surviving ip1 ip2)"
  by (simp add: surviving_def)

lemma surviving_inj:
  "inj_on (\<lambda>i. ip1 ! i) (set (surviving ip1 ip2))" "inj_on (\<lambda>i. ip2 ! i) (set (surviving ip1 ip2))"
  unfolding surviving_set inj_on_def by blast+

text \<open>
  C5. For two sequences of the same length, \<open>remove_duplicates\<close> keeps exactly the indices
  that share no coordinate, on either side, with another index: an index is dropped whenever
  some other index has the same first or the same second coordinate. Both results list the
  entries of the kept indices in increasing order of index, so they have the same length and
  keep the relative order; and no two kept entries agree on either side.
\<close>

theorem remove_duplicates_correct:
  assumes "length ip1 = length ip2"
  shows "fst (remove_duplicates ip1 ip2) = map (\<lambda>i. ip1 ! i) (surviving ip1 ip2)
       \<and> snd (remove_duplicates ip1 ip2) = map (\<lambda>i. ip2 ! i) (surviving ip1 ip2)
       \<and> sorted_wrt (<) (surviving ip1 ip2)
       \<and> (\<forall>i < length ip1.
            i \<in> set (surviving ip1 ip2)
              \<longleftrightarrow> \<not> (\<exists>j < length ip1. j \<noteq> i \<and> (ip1 ! i = ip1 ! j \<or> ip2 ! i = ip2 ! j)))
       \<and> length (fst (remove_duplicates ip1 ip2)) = length (snd (remove_duplicates ip1 ip2))
       \<and> distinct (fst (remove_duplicates ip1 ip2))
       \<and> distinct (snd (remove_duplicates ip1 ip2))"
proof -
  have members: "\<forall>i < length ip1.
      i \<in> set (surviving ip1 ip2)
        \<longleftrightarrow> \<not> (\<exists>j < length ip1. j \<noteq> i \<and> (ip1 ! i = ip1 ! j \<or> ip2 ! i = ip2 ! j))"
    unfolding surviving_set by blast
  have d1: "distinct (map (\<lambda>i. ip1 ! i) (surviving ip1 ip2))"
    by (simp add: distinct_map surviving_distinct surviving_inj)
  have d2: "distinct (map (\<lambda>i. ip2 ! i) (surviving ip1 ip2))"
    by (simp add: distinct_map surviving_distinct surviving_inj)
  from members d1 d2 show ?thesis
    by (simp add: remove_duplicates_eq surviving_sorted)
qed

lemma example_surviving: "surviving example_ip1 example_ip2 = [3, 5]"
  by (simp add: surviving_def shares_coordinate_def example_ip1_def example_ip2_def upt_rec)

theorem remove_duplicates_correct_witness:
  "length example_ip1 = length example_ip2
   \<and> remove_duplicates example_ip1 example_ip2 = ([(2, 2, 1), (4, 4, 1)], [(8, 8, 1), (9, 9, 1)])"
proof -
  have len: "length example_ip1 = length example_ip2"
    by (simp add: example_ip1_def example_ip2_def)
  have "fst (remove_duplicates example_ip1 example_ip2) = [(2, 2, 1), (4, 4, 1)]"
    and "snd (remove_duplicates example_ip1 example_ip2) = [(8, 8, 1), (9, 9, 1)]"
    using remove_duplicates_correct [OF len]
    by (simp_all add: example_surviving) (simp_all add: example_ip1_def example_ip2_def)
  with len show ?thesis by (simp add: prod_eq_iff)
qed

lemma remove_duplicates_example:
  "remove_duplicates example_ip1 example_ip2 = ([(2, 2, 1), (4, 4, 1)], [(8, 8, 1), (9, 9, 1)])"
  by (simp add: remove_duplicates_def bad_entry_def example_ip1_def example_ip2_def upt_rec)

subsection \<open>The tiers of the alignment cache\<close>

lemmas io_defs = bind_io_def return_io_def exists_file_def read_binary_match_file_def
  read_binary_ip_file_def write_binary_ip_file_def write_binary_match_file_def DiskImageView_def
  detect_interest_points_def descriptor_def matcher_def

lemma matched_cached:
  assumes "exists_file w (match_file_name f1 f2)"
  shows "matched_interest_points vw f1 f2 lo hi w = read_binary_match_file (match_file_name f1 f2) w"
    and "files (snd (matched_interest_points vw f1 f2 lo hi w)) = files w"
    and "new_events w (snd (matched_interest_points vw f1 f2 lo hi w)) = [EvReadMatch (match_file_name f1 f2)]"
  using assms
  by (auto simp: matched_interest_points_def read_binary_match_file_def new_events_def
      split: option.splits disk_file.splits)



lemma matched_from_images:
  assumes "\<not> exists_file w (match_file_name f1 f2)"
    and "\<not> (exists_file w (vwip_file_name f1) \<and> exists_file w (vwip_file_name f2))"
    and "files w f1 = Some (ImageFile left g1)"
    and "files w f2 = Some (ImageFile right g2)"
    and "ip1 = vw_descriptor vw (vw_normalize vw lo hi left)
                 (vw_detect_interest_points vw (vw_normalize vw lo hi left))"
    and "ip2 = vw_descriptor vw (vw_normalize vw lo hi right)
                 (vw_detect_interest_points vw (vw_normalize vw lo hi right))"
    and "m = vw_matcher vw (if vwip_file_name f1 = vwip_file_name f2 then ip2 else ip1) ip2"
  shows "matched_interest_points vw f1 f2 lo hi w
           = (Inr m,
              w\<lparr>files := (files w)(vwip_file_name f1 \<mapsto> IpFile ip1, vwip_file_name f2 \<mapsto> IpFile ip2,
                                  match_file_name f1 f2 \<mapsto> MatchFile (fst m) (snd m)),
                trace := trace w @ [EvDetect f1, EvDetect f2, EvDescribe f1, EvDescribe f2,
                                    EvWriteIp (vwip_file_name f1), EvWriteIp (vwip_file_name f2),
                                    EvReadIp (vwip_file_name f1), EvReadIp (vwip_file_name f2),
                                    EvMatcher, EvWriteMatch (match_file_name f1 f2)]\<rparr>)"
  using assms
  by (auto simp: matched_interest_points_def io_defs Let_def split: prod.splits)

subsection \<open>The fit and the two hooks\<close>

lemma fit_alignment_eq:
  "fit_alignment vw m1 m2 w =
     (case fitted vw m1 m2 of
        Inl e \<Rightarrow> (Inr (identity_matrix 3), w\<lparr>trace := trace w @ [EvRansac, EvAlignmentWarning]\<rparr>)
      | Inr T \<Rightarrow> (Inr T, w\<lparr>trace := trace w @ [EvRansac]\<rparr>))"
  by (simp add: fit_alignment_def fitted_def catch_all_def ransac_def bind_io_def emit_def return_io_def
      split: prod.splits sum.splits)

lemma determine_image_alignment_eq:
  assumes "matched_interest_points vw f1 f2 lo hi w = (Inr (m1, m2), w1)"
  shows "determine_image_alignment vw f1 f2 lo hi w = fit_alignment vw m1 m2 w1"
  using assms by (simp add: determine_image_alignment_def bind_io_def)

lemma pre_preprocessing_map_projected:
  assumes "files w f1 = Some (ImageFile left g1)" and "files w f2 = Some (ImageFile right g2)"
    and "transform gd \<noteq> identity_matrix 3"
  shows "pre_preprocessing_hook vw settings self gd f1 f2 w
           = (Inr (m_out_prefix self @ ''-L.tif'', m_out_prefix self @ ''-R.tif''),
              w\<lparr>files := (files w)
                   (m_out_prefix self @ ''-L.tif'' \<mapsto>
                      ImageFile (vw_normalize vw (joint_lo vw left right) (joint_hi vw left right) left)
                        (identity_matrix 3),
                    m_out_prefix self @ ''-R.tif'' \<mapsto>
                      ImageFile (vw_crop vw
                                   (vw_geo_transform vw gd gd
                                      (vw_normalize vw (joint_lo vw left right) (joint_hi vw left right) right))
                                   (img_cols left) (img_rows left))
                        (identity_matrix 3)),
                trace := trace w @ [EvWriteImage (m_out_prefix self @ ''-L.tif''),
                                    EvWriteImage (m_out_prefix self @ ''-R.tif'')]\<rparr>)"
  using assms
  by (simp add: pre_preprocessing_hook_def DiskImageView_def bind_io_def return_io_def write_image_def
        Let_def joint_lo_def joint_hi_def)

lemma pre_preprocessing_unprojected:
  assumes "files w f1 = Some (ImageFile left g1)" and "files w f2 = Some (ImageFile right g2)"
    and "transform gd = identity_matrix 3"
  shows "pre_preprocessing_hook vw settings self gd f1 f2 w
           = bind_io (if keypoint_alignment settings
                      then determine_image_alignment vw f1 f2 (joint_lo vw left right) (joint_hi vw left right)
                      else return_io (identity_matrix 3)) (\<lambda>align_matrix.
             bind_io (write_matrix (m_out_prefix self @ ''-align.exr'') align_matrix) (\<lambda>_.
             bind_io (write_image (m_out_prefix self @ ''-L.tif'')
                        (vw_normalize vw (joint_lo vw left right) (joint_hi vw left right) left)) (\<lambda>_.
             bind_io (write_image (m_out_prefix self @ ''-R.tif'')
                        (vw_homography_transform vw align_matrix
                           (vw_normalize vw (joint_lo vw left right) (joint_hi vw left right) right)
                           (img_cols left) (img_rows left))) (\<lambda>_.
             return_io (m_out_prefix self @ ''-L.tif'', m_out_prefix self @ ''-R.tif''))))) w"
  using assms
  by (simp add: pre_preprocessing_hook_def DiskImageView_def bind_io_def Let_def joint_lo_def joint_hi_def)

lemma pre_preprocessing_aligned:
  assumes "files w f1 = Some (ImageFile left g1)" and "files w f2 = Some (ImageFile right g2)"
    and "transform gd = identity_matrix 3" and "keypoint_alignment settings"
    and "matched_interest_points vw f1 f2 (joint_lo vw left right) (joint_hi vw left right) w
           = (Inr (m1, m2), w1)"
    and "A = (case fitted vw m1 m2 of Inl e \<Rightarrow> identity_matrix 3 | Inr T \<Rightarrow> T)"
  shows "pre_preprocessing_hook vw settings self gd f1 f2 w
           = (Inr (m_out_prefix self @ ''-L.tif'', m_out_prefix self @ ''-R.tif''),
              w1\<lparr>files := (files w1)
                   (m_out_prefix self @ ''-align.exr'' \<mapsto> MatrixFile A,
                    m_out_prefix self @ ''-L.tif'' \<mapsto>
                      ImageFile (vw_normalize vw (joint_lo vw left right) (joint_hi vw left right) left)
                        (identity_matrix 3),
                    m_out_prefix self @ ''-R.tif'' \<mapsto>
                      ImageFile (vw_homography_transform vw A
                                   (vw_normalize vw (joint_lo vw left right) (joint_hi vw left right) right)
                                   (img_cols left) (img_rows left))
                        (identity_matrix 3)),
                 trace := trace w1 @ EvRansac #
                            (case fitted vw m1 m2 of Inl e \<Rightarrow> [EvAlignmentWarning] | Inr T \<Rightarrow> []) @
                            [EvWriteMatrix (m_out_prefix self @ ''-align.exr''),
                             EvWriteImage (m_out_prefix self @ ''-L.tif''),
                             EvWriteImage (m_out_prefix self @ ''-R.tif'')]\<rparr>)"
  unfolding pre_preprocessing_unprojected [OF assms(1,2,3)]
  using assms(4,6)
  by (simp add: determine_image_alignment_eq [OF assms(5)] fit_alignment_eq bind_io_def return_io_def
        write_matrix_def write_image_def split: sum.splits)

lemma pre_pointcloud_fatal:
  assumes "files w input_file = Some (DisparityFile d)"
    and "transform gd = identity_matrix 3"
    and "\<forall>M. files w (m_out_prefix self @ ''-align.exr'') \<noteq> Some (MatrixFile M)"
  shows "pre_pointcloud_hook vw self gd input_file w
           = (Inl (Exit 1),
              w\<lparr>trace := trace w @ [EvReadMatrix (m_out_prefix self @ ''-align.exr''),
                                  EvCouldNotReadMatrix (m_out_prefix self @ ''-align.exr'')]\<rparr>)"
  using assms
  by (auto simp: pre_pointcloud_hook_def DiskImageView_disparity_def bind_io_def Let_def catch_IOErr_def
        read_matrix_def emit_def exit_io_def split: option.splits disk_file.splits)

lemma pre_pointcloud_unprojected:
  assumes "files w input_file = Some (DisparityFile d)"
    and "transform gd = identity_matrix 3"
    and "files w (m_out_prefix self @ ''-align.exr'') = Some (MatrixFile M)"
    and "files w (m_right_image_file self) = Some (ImageFile right g2)"
  shows "pre_pointcloud_hook vw self gd input_file w
           = (Inr (m_out_prefix self @ ''-F-corrected.exr''),
              w\<lparr>files := (files w)
                   (m_out_prefix self @ ''-F-corrected.exr'' \<mapsto>
                      DisparityFile (remove_invalid_pixels
                                       (transform_disparities (vw_homography_point vw M) d)
                                       (img_cols right) (img_rows right))),
                trace := trace w @ [EvReadMatrix (m_out_prefix self @ ''-align.exr''),
                                    EvWriteImage (m_out_prefix self @ ''-F-corrected.exr'')]\<rparr>)"
  using assms
  by (simp add: pre_pointcloud_hook_def DiskImageView_disparity_def DiskImageView_def bind_io_def Let_def
        catch_IOErr_def read_matrix_def return_io_def write_disparity_def)

lemma corrected_cell:
  assumes "row < length d" and "col < length (d ! row)"
  shows "remove_invalid_pixels (transform_disparities point_map d) cols rows ! row ! col
           = (case d ! row ! col of
                None \<Rightarrow> None
              | Some (h, v) \<Rightarrow>
                  if outside_bounds (point_map (real col + h, real row + v)) cols rows then None
                  else Some (fst (point_map (real col + h, real row + v)) - real col,
                             snd (point_map (real col + h, real row + v)) - real row))"
  using assms
  by (auto simp: remove_invalid_pixels_def transform_disparities_def nth_enumerate_eq
      split: option.splits prod.splits)

lemma corrected_shape:
  "length (remove_invalid_pixels (transform_disparities point_map d) cols rows) = length d"
  "row < length d \<Longrightarrow>
     length (remove_invalid_pixels (transform_disparities point_map d) cols rows ! row) = length (d ! row)"
  by (simp_all add: remove_invalid_pixels_def transform_disparities_def nth_enumerate_eq)

subsection \<open>Facts about the concrete runs\<close>

lemma example_names:
  "match_file_name ''left.cub'' ''right.cub'' = ''left__right.match''"
  "vwip_file_name ''left.cub'' = ''left.vwip''"
  "vwip_file_name ''right.cub'' = ''right.vwip''"
  by (simp_all add: match_file_name_def vwip_file_name_def prefix_from_filename_def rfind_def upt_rec)

lemma scale2_not_identity: "scale2 \<noteq> identity_matrix 3"
  by (simp add: scale2_def identity_matrix_def upt_rec)

lemma example_world_facts:
  "\<not> exists_file example_world ''left__right.match''"
  "\<not> exists_file example_world ''left.vwip''"
  "files example_world ''left.cub'' = Some (ImageFile [[0, 1]] scale2)"
  "files example_world ''right.cub'' = Some (ImageFile [[1, 0]] scale2)"
  "trace example_world = []"
  by (simp_all add: example_world_def exists_file_def)

lemma cached_world_facts:
  "exists_file cached_world ''left__right.match''"
  "files cached_world ''left__right.match'' = Some (MatchFile [example_point] [example_point])"
  "trace cached_world = []"
  by (simp_all add: cached_world_def exists_file_def)


lemma example_vw_facts:
  "vw_detect_interest_points example_vw img = [example_point]"
  "vw_descriptor example_vw img ips = ips"
  "vw_matcher example_vw a b = (a, b)"
  "vw_normalize example_vw lo hi img = img"
  "fitted example_vw m1 m2 = Inl OtherErr"
  "joint_lo example_vw left right = 0"
  "joint_hi example_vw left right = 1"
  "vw_homography_transform example_vw M img cols rows = img"
  "vw_crop example_vw img cols rows = img"
  "vw_geo_transform example_vw src dst img = img"
  "vw_homography_point example_vw M p = (fst p + 1, snd p)"
  by (simp_all add: example_vw_def fitted_def joint_lo_def joint_hi_def)

subsection \<open>The three tiers together\<close>



subsection \<open>Failures of the alignment\<close>

lemma disparity_world_facts:
  "files disparity_world ''out-F.exr'' = Some (DisparityFile [[Some (0, 0), Some (0, 0), None]])"
  "\<not> readable_matrix disparity_world ''out-align.exr''"
  "trace disparity_world = []"
  by (simp_all add: disparity_world_def readable_matrix_def)

lemma aligned_world_facts:
  "files aligned_world ''out-F.exr'' = Some (DisparityFile [[Some (0, 0), Some (0, 0), None]])"
  "files aligned_world ''out-align.exr'' = Some (MatrixFile (identity_matrix 3))"
  "files aligned_world ''right.cub'' = Some (ImageFile [[1, 0]] scale2)"
  "trace aligned_world = []"
  by (simp_all add: aligned_world_def)

lemma example_session_facts:
  "m_out_prefix example_session = ''out''"
  "m_right_image_file example_session = ''right.cub''"
  by (simp_all add: example_session_def)

lemma not_readable_matrix:
  "\<not> readable_matrix w p \<Longrightarrow> files w p \<noteq> Some (MatrixFile M)"
  by (auto simp: readable_matrix_def)

text \<open>
  C2. When the robust fit throws, whatever the matches are, \<open>determine_image_alignment\<close>
  logs the warning and returns the 3 by 3 identity; the preprocessing hook then goes on,
  writes the identity as alignment matrix and writes both images. In the point-cloud hook on
  the unprojected path, an alignment matrix file that is absent or cannot be read ends the
  process with \<open>exit(1)\<close>, and nothing is written. When it can be read, every valid
  vector of the disparity map is transformed with the matrix, and a vector whose target then
  lies outside the pixel bounds of the second image is marked invalid.
\<close>

theorem alignment_failure_asymmetry:
  "(fitted vw m1 m2 = Inl e \<longrightarrow>
      fit_alignment vw m1 m2 w1
        = (Inr (identity_matrix 3), w1\<lparr>trace := trace w1 @ [EvRansac, EvAlignmentWarning]\<rparr>))
   \<and> (matched_interest_points vw f1 f2 lo hi w = (Inr (m1, m2), w1) \<and> fitted vw m1 m2 = Inl e \<longrightarrow>
      determine_image_alignment vw f1 f2 lo hi w
        = (Inr (identity_matrix 3), w1\<lparr>trace := trace w1 @ [EvRansac, EvAlignmentWarning]\<rparr>))
   \<and> (files w f1 = Some (ImageFile left g1) \<and> files w f2 = Some (ImageFile right g2)
      \<and> transform gd = identity_matrix 3 \<and> keypoint_alignment settings
      \<and> matched_interest_points vw f1 f2 (joint_lo vw left right) (joint_hi vw left right) w
           = (Inr (m1, m2), w1)
      \<and> fitted vw m1 m2 = Inl e \<longrightarrow>
      pre_preprocessing_hook vw settings self gd f1 f2 w
        = (Inr (m_out_prefix self @ ''-L.tif'', m_out_prefix self @ ''-R.tif''),
           w1\<lparr>files := (files w1)
                (m_out_prefix self @ ''-align.exr'' \<mapsto> MatrixFile (identity_matrix 3),
                 m_out_prefix self @ ''-L.tif'' \<mapsto>
                   ImageFile (vw_normalize vw (joint_lo vw left right) (joint_hi vw left right) left)
                     (identity_matrix 3),
                 m_out_prefix self @ ''-R.tif'' \<mapsto>
                   ImageFile (vw_homography_transform vw (identity_matrix 3)
                                (vw_normalize vw (joint_lo vw left right) (joint_hi vw left right) right)
                                (img_cols left) (img_rows left))
                     (identity_matrix 3)),
              trace := trace w1 @
                [EvRansac, EvAlignmentWarning, EvWriteMatrix (m_out_prefix self @ ''-align.exr''),
                 EvWriteImage (m_out_prefix self @ ''-L.tif''),
                 EvWriteImage (m_out_prefix self @ ''-R.tif'')]\<rparr>))
   \<and> (files w input_file = Some (DisparityFile d) \<and> transform gd = identity_matrix 3
      \<and> \<not> readable_matrix w (m_out_prefix self @ ''-align.exr'') \<longrightarrow>
      pre_pointcloud_hook vw self gd input_file w
        = (Inl (Exit 1),
           w\<lparr>trace := trace w @ [EvReadMatrix (m_out_prefix self @ ''-align.exr''),
                               EvCouldNotReadMatrix (m_out_prefix self @ ''-align.exr'')]\<rparr>))
   \<and> (files w input_file = Some (DisparityFile d) \<and> transform gd = identity_matrix 3
      \<and> files w (m_out_prefix self @ ''-align.exr'') = Some (MatrixFile M)
      \<and> files w (m_right_image_file self) = Some (ImageFile right_image g) \<longrightarrow>
      (let corrected = remove_invalid_pixels (transform_disparities (vw_homography_point vw M) d)
                         (img_cols right_image) (img_rows right_image)
       in
         pre_pointcloud_hook vw self gd input_file w
           = (Inr (m_out_prefix self @ ''-F-corrected.exr''),
              w\<lparr>files := (files w)(m_out_prefix self @ ''-F-corrected.exr'' \<mapsto> DisparityFile corrected),
                trace := trace w @ [EvReadMatrix (m_out_prefix self @ ''-align.exr''),
                                    EvWriteImage (m_out_prefix self @ ''-F-corrected.exr'')]\<rparr>)
         \<and> length corrected = length d
         \<and> (\<forall>row < length d.
              length (corrected ! row) = length (d ! row)
              \<and> (\<forall>col < length (d ! row).
                   corrected ! row ! col
                     = (case d ! row ! col of
                          None \<Rightarrow> None
                        | Some (h, v) \<Rightarrow>
                            if outside_bounds (vw_homography_point vw M (real col + h, real row + v))
                                 (img_cols right_image) (img_rows right_image)
                            then None
                            else Some (fst (vw_homography_point vw M (real col + h, real row + v)) - real col,
                                       snd (vw_homography_point vw M (real col + h, real row + v)) - real row))))))"
proof -
  have a: "fitted vw m1 m2 = Inl e \<longrightarrow>
      fit_alignment vw m1 m2 w1
        = (Inr (identity_matrix 3), w1\<lparr>trace := trace w1 @ [EvRansac, EvAlignmentWarning]\<rparr>)"
    by (simp add: fit_alignment_eq)
  have b: "matched_interest_points vw f1 f2 lo hi w = (Inr (m1, m2), w1) \<and> fitted vw m1 m2 = Inl e \<longrightarrow>
      determine_image_alignment vw f1 f2 lo hi w
        = (Inr (identity_matrix 3), w1\<lparr>trace := trace w1 @ [EvRansac, EvAlignmentWarning]\<rparr>)"
    by (auto simp: determine_image_alignment_eq fit_alignment_eq)
  have c: "files w f1 = Some (ImageFile left g1) \<and> files w f2 = Some (ImageFile right g2)
      \<and> transform gd = identity_matrix 3 \<and> keypoint_alignment settings
      \<and> matched_interest_points vw f1 f2 (joint_lo vw left right) (joint_hi vw left right) w
           = (Inr (m1, m2), w1)
      \<and> fitted vw m1 m2 = Inl e \<longrightarrow>
      pre_preprocessing_hook vw settings self gd f1 f2 w
        = (Inr (m_out_prefix self @ ''-L.tif'', m_out_prefix self @ ''-R.tif''),
           w1\<lparr>files := (files w1)
                (m_out_prefix self @ ''-align.exr'' \<mapsto> MatrixFile (identity_matrix 3),
                 m_out_prefix self @ ''-L.tif'' \<mapsto>
                   ImageFile (vw_normalize vw (joint_lo vw left right) (joint_hi vw left right) left)
                     (identity_matrix 3),
                 m_out_prefix self @ ''-R.tif'' \<mapsto>
                   ImageFile (vw_homography_transform vw (identity_matrix 3)
                                (vw_normalize vw (joint_lo vw left right) (joint_hi vw left right) right)
                                (img_cols left) (img_rows left))
                     (identity_matrix 3)),
              trace := trace w1 @
                [EvRansac, EvAlignmentWarning, EvWriteMatrix (m_out_prefix self @ ''-align.exr''),
                 EvWriteImage (m_out_prefix self @ ''-L.tif''),
                 EvWriteImage (m_out_prefix self @ ''-R.tif'')]\<rparr>)"
  proof (intro impI, elim conjE)
    assume h: "files w f1 = Some (ImageFile left g1)" "files w f2 = Some (ImageFile right g2)"
      "transform gd = identity_matrix 3" "keypoint_alignment settings"
      "matched_interest_points vw f1 f2 (joint_lo vw left right) (joint_hi vw left right) w = (Inr (m1, m2), w1)"
      "fitted vw m1 m2 = Inl e"
    show "pre_preprocessing_hook vw settings self gd f1 f2 w
        = (Inr (m_out_prefix self @ ''-L.tif'', m_out_prefix self @ ''-R.tif''),
           w1\<lparr>files := (files w1)
                (m_out_prefix self @ ''-align.exr'' \<mapsto> MatrixFile (identity_matrix 3),
                 m_out_prefix self @ ''-L.tif'' \<mapsto>
                   ImageFile (vw_normalize vw (joint_lo vw left right) (joint_hi vw left right) left)
                     (identity_matrix 3),
                 m_out_prefix self @ ''-R.tif'' \<mapsto>
                   ImageFile (vw_homography_transform vw (identity_matrix 3)
                                (vw_normalize vw (joint_lo vw left right) (joint_hi vw left right) right)
                                (img_cols left) (img_rows left))
                     (identity_matrix 3)),
              trace := trace w1 @
                [EvRansac, EvAlignmentWarning, EvWriteMatrix (m_out_prefix self @ ''-align.exr''),
                 EvWriteImage (m_out_prefix self @ ''-L.tif''),
                 EvWriteImage (m_out_prefix self @ ''-R.tif'')]\<rparr>)"
      using pre_preprocessing_aligned [OF h(1,2,3,4,5) refl, of self] h(6) by simp
  qed
  have d: "files w input_file = Some (DisparityFile d) \<and> transform gd = identity_matrix 3
      \<and> \<not> readable_matrix w (m_out_prefix self @ ''-align.exr'') \<longrightarrow>
      pre_pointcloud_hook vw self gd input_file w
        = (Inl (Exit 1),
           w\<lparr>trace := trace w @ [EvReadMatrix (m_out_prefix self @ ''-align.exr''),
                               EvCouldNotReadMatrix (m_out_prefix self @ ''-align.exr'')]\<rparr>)"
    using pre_pointcloud_fatal [of w input_file d gd self vw] not_readable_matrix by blast
  have e: "files w input_file = Some (DisparityFile d) \<and> transform gd = identity_matrix 3
      \<and> files w (m_out_prefix self @ ''-align.exr'') = Some (MatrixFile M)
      \<and> files w (m_right_image_file self) = Some (ImageFile right_image g) \<longrightarrow>
      (let corrected = remove_invalid_pixels (transform_disparities (vw_homography_point vw M) d)
                         (img_cols right_image) (img_rows right_image)
       in
         pre_pointcloud_hook vw self gd input_file w
           = (Inr (m_out_prefix self @ ''-F-corrected.exr''),
              w\<lparr>files := (files w)(m_out_prefix self @ ''-F-corrected.exr'' \<mapsto> DisparityFile corrected),
                trace := trace w @ [EvReadMatrix (m_out_prefix self @ ''-align.exr''),
                                    EvWriteImage (m_out_prefix self @ ''-F-corrected.exr'')]\<rparr>)
         \<and> length corrected = length d
         \<and> (\<forall>row < length d.
              length (corrected ! row) = length (d ! row)
              \<and> (\<forall>col < length (d ! row).
                   corrected ! row ! col
                     = (case d ! row ! col of
                          None \<Rightarrow> None
                        | Some (h, v) \<Rightarrow>
                            if outside_bounds (vw_homography_point vw M (real col + h, real row + v))
                                 (img_cols right_image) (img_rows right_image)
                            then None
                            else Some (fst (vw_homography_point vw M (real col + h, real row + v)) - real col,
                                       snd (vw_homography_point vw M (real col + h, real row + v)) - real row)))))"
  proof (intro impI, elim conjE)
    assume h: "files w input_file = Some (DisparityFile d)" "transform gd = identity_matrix 3"
      "files w (m_out_prefix self @ ''-align.exr'') = Some (MatrixFile M)"
      "files w (m_right_image_file self) = Some (ImageFile right_image g)"
    let ?c = "remove_invalid_pixels (transform_disparities (vw_homography_point vw M) d)
                (img_cols right_image) (img_rows right_image)"
    have "pre_pointcloud_hook vw self gd input_file w
           = (Inr (m_out_prefix self @ ''-F-corrected.exr''),
              w\<lparr>files := (files w)(m_out_prefix self @ ''-F-corrected.exr'' \<mapsto> DisparityFile ?c),
                trace := trace w @ [EvReadMatrix (m_out_prefix self @ ''-align.exr''),
                                    EvWriteImage (m_out_prefix self @ ''-F-corrected.exr'')]\<rparr>)"
      by (rule pre_pointcloud_unprojected [OF h])
    moreover have "length ?c = length d"
      by (rule corrected_shape(1))
    moreover have "\<forall>row < length d.
              length (?c ! row) = length (d ! row)
              \<and> (\<forall>col < length (d ! row).
                   ?c ! row ! col
                     = (case d ! row ! col of
                          None \<Rightarrow> None
                        | Some (h, v) \<Rightarrow>
                            if outside_bounds (vw_homography_point vw M (real col + h, real row + v))
                                 (img_cols right_image) (img_rows right_image)
                            then None
                            else Some (fst (vw_homography_point vw M (real col + h, real row + v)) - real col,
                                       snd (vw_homography_point vw M (real col + h, real row + v)) - real row)))"
      using corrected_shape(2) corrected_cell by blast
    ultimately show "let corrected = remove_invalid_pixels (transform_disparities (vw_homography_point vw M) d)
                         (img_cols right_image) (img_rows right_image)
       in
         pre_pointcloud_hook vw self gd input_file w
           = (Inr (m_out_prefix self @ ''-F-corrected.exr''),
              w\<lparr>files := (files w)(m_out_prefix self @ ''-F-corrected.exr'' \<mapsto> DisparityFile corrected),
                trace := trace w @ [EvReadMatrix (m_out_prefix self @ ''-align.exr''),
                                    EvWriteImage (m_out_prefix self @ ''-F-corrected.exr'')]\<rparr>)
         \<and> length corrected = length d
         \<and> (\<forall>row < length d.
              length (corrected ! row) = length (d ! row)
              \<and> (\<forall>col < length (d ! row).
                   corrected ! row ! col
                     = (case d ! row ! col of
                          None \<Rightarrow> None
                        | Some (h, v) \<Rightarrow>
                            if outside_bounds (vw_homography_point vw M (real col + h, real row + v))
                                 (img_cols right_image) (img_rows right_image)
                            then None
                            else Some (fst (vw_homography_point vw M (real col + h, real row + v)) - real col,
                                       snd (vw_homography_point vw M (real col + h, real row + v)) - real row))))"
      unfolding Let_def by blast
  qed
  from a b c d e show ?thesis by blast
qed

lemma cached_matched:
  "matched_interest_points example_vw ''left.cub'' ''right.cub'' 0 1 cached_world
     = (Inr ([example_point], [example_point]), cached_world\<lparr>trace := [EvReadMatch ''left__right.match'']\<rparr>)"
  using matched_cached(1) [of cached_world "''left.cub''" "''right.cub''" example_vw 0 1]
  by (simp add: example_names cached_world_facts read_binary_match_file_def)

lemma cached_world_images:
  "files cached_world ''left.cub'' = Some (ImageFile [[0, 1]] scale2)"
  "files cached_world ''right.cub'' = Some (ImageFile [[1, 0]] scale2)"
  by (simp_all add: cached_world_def)

theorem alignment_failure_asymmetry_witness:
  "determine_image_alignment example_vw ''left.cub'' ''right.cub'' 0 1 cached_world
     = (Inr (identity_matrix 3),
        cached_world\<lparr>trace := [EvReadMatch ''left__right.match'', EvRansac, EvAlignmentWarning]\<rparr>)
   \<and> fst (pre_preprocessing_hook example_vw \<lparr>keypoint_alignment = True\<rparr> example_session
            \<lparr>transform = identity_matrix 3\<rparr> ''left.cub'' ''right.cub'' cached_world)
     = Inr (''out-L.tif'', ''out-R.tif'')
   \<and> files (snd (pre_preprocessing_hook example_vw \<lparr>keypoint_alignment = True\<rparr> example_session
            \<lparr>transform = identity_matrix 3\<rparr> ''left.cub'' ''right.cub'' cached_world)) ''out-align.exr''
     = Some (MatrixFile (identity_matrix 3))
   \<and> pre_pointcloud_hook example_vw example_session \<lparr>transform = identity_matrix 3\<rparr> ''out-F.exr''
        disparity_world
     = (Inl (Exit 1),
        disparity_world\<lparr>trace := [EvReadMatrix ''out-align.exr'', EvCouldNotReadMatrix ''out-align.exr'']\<rparr>)
   \<and> pre_pointcloud_hook example_vw example_session \<lparr>transform = identity_matrix 3\<rparr> ''out-F.exr''
        aligned_world
     = (Inr ''out-F-corrected.exr'',
        aligned_world\<lparr>files := (files aligned_world)
                        (''out-F-corrected.exr'' \<mapsto> DisparityFile [[Some (1, 0), None, None]]),
                      trace := [EvReadMatrix ''out-align.exr'', EvWriteImage ''out-F-corrected.exr'']\<rparr>)"
proof -
  note asym = alignment_failure_asymmetry [where vw = example_vw and self = example_session
      and gd = "\<lparr>transform = identity_matrix 3\<rparr>" and ?f1.0 = "''left.cub''" and ?f2.0 = "''right.cub''"
      and ?m1.0 = "[example_point]" and ?m2.0 = "[example_point]" and e = OtherErr
      and input_file = "''out-F.exr''" and d = "[[Some (0, 0), Some (0, 0), None]]"
      and left = "[[0, 1]]" and right = "[[1, 0]]" and ?g1.0 = scale2 and ?g2.0 = scale2
      and right_image = "[[1, 0]]" and g = scale2 and M = "identity_matrix 3"
      and settings = "\<lparr>keypoint_alignment = True\<rparr>" and lo = 0 and hi = 1
      and ?w1.0 = "cached_world\<lparr>trace := [EvReadMatch ''left__right.match'']\<rparr>"]
  have one: "determine_image_alignment example_vw ''left.cub'' ''right.cub'' 0 1 cached_world
     = (Inr (identity_matrix 3),
        cached_world\<lparr>trace := [EvReadMatch ''left__right.match'', EvRansac, EvAlignmentWarning]\<rparr>)"
    using asym [where w = cached_world]
    by (simp add: cached_matched example_vw_facts)
  have two: "pre_preprocessing_hook example_vw \<lparr>keypoint_alignment = True\<rparr> example_session
            \<lparr>transform = identity_matrix 3\<rparr> ''left.cub'' ''right.cub'' cached_world
     = (Inr (''out-L.tif'', ''out-R.tif''),
        cached_world\<lparr>files := (files cached_world)
             (''out-align.exr'' \<mapsto> MatrixFile (identity_matrix 3),
              ''out-L.tif'' \<mapsto> ImageFile [[0, 1]] (identity_matrix 3),
              ''out-R.tif'' \<mapsto> ImageFile [[1, 0]] (identity_matrix 3)),
           trace := [EvReadMatch ''left__right.match'', EvRansac, EvAlignmentWarning,
                     EvWriteMatrix ''out-align.exr'', EvWriteImage ''out-L.tif'', EvWriteImage ''out-R.tif'']\<rparr>)"
    using asym [where w = cached_world]
    by (simp add: cached_matched example_vw_facts cached_world_images example_session_facts)
  have three: "pre_pointcloud_hook example_vw example_session \<lparr>transform = identity_matrix 3\<rparr> ''out-F.exr''
        disparity_world
     = (Inl (Exit 1),
        disparity_world\<lparr>trace := [EvReadMatrix ''out-align.exr'', EvCouldNotReadMatrix ''out-align.exr'']\<rparr>)"
    using asym [where w = disparity_world]
    by (simp add: disparity_world_facts example_session_facts)
  have four: "pre_pointcloud_hook example_vw example_session \<lparr>transform = identity_matrix 3\<rparr>
        ''out-F.exr'' aligned_world
     = (Inr ''out-F-corrected.exr'',
        aligned_world\<lparr>files := (files aligned_world)
                        (''out-F-corrected.exr'' \<mapsto> DisparityFile [[Some (1, 0), None, None]]),
                      trace := [EvReadMatrix ''out-align.exr'', EvWriteImage ''out-F-corrected.exr'']\<rparr>)"
    using asym [where w = aligned_world, THEN conjunct2, THEN conjunct2, THEN conjunct2, THEN conjunct2]
    by (simp add: aligned_world_facts example_session_facts example_vw_facts Let_def
          remove_invalid_pixels_def transform_disparities_def outside_bounds_def img_cols_def img_rows_def)
  from one two three four show ?thesis by simp
qed

subsection \<open>The branch of the preprocessing hook\<close>

text \<open>
  C7 (amended). The preprocessing hook branches on its two local georeferences, which are
  default constructed (the code that read them from the images is commented out); what the
  images carry is not consulted. If the default transform is not the identity, the hook
  takes the map-projected path: no cache artifact is read or written and no alignment is
  computed; the first georeference is the common frame, the second image is transformed
  into it and cropped to the extent of the first. If the default transform is the identity,
  the hook takes the unprojected path: the alignment (computed through the cache and the
  fit when keypoint alignment is on, the identity otherwise) is persisted and the second
  image is warped with it.
\<close>

theorem preprocessing_branches_on_default_georeference:
  "(files w f1 = Some (ImageFile left g1) \<and> files w f2 = Some (ImageFile right g2)
      \<and> transform gd \<noteq> identity_matrix 3 \<longrightarrow>
      pre_preprocessing_hook vw settings self gd f1 f2 w
        = (Inr (m_out_prefix self @ ''-L.tif'', m_out_prefix self @ ''-R.tif''),
           w\<lparr>files := (files w)
                (m_out_prefix self @ ''-L.tif'' \<mapsto>
                   ImageFile (vw_normalize vw (joint_lo vw left right) (joint_hi vw left right) left)
                     (identity_matrix 3),
                 m_out_prefix self @ ''-R.tif'' \<mapsto>
                   ImageFile (vw_crop vw
                                (vw_geo_transform vw gd gd
                                   (vw_normalize vw (joint_lo vw left right) (joint_hi vw left right) right))
                                (img_cols left) (img_rows left))
                     (identity_matrix 3)),
             trace := trace w @ [EvWriteImage (m_out_prefix self @ ''-L.tif''),
                                 EvWriteImage (m_out_prefix self @ ''-R.tif'')]\<rparr>))
   \<and> (files w f1 = Some (ImageFile left g1) \<and> files w f2 = Some (ImageFile right g2)
      \<and> transform gd = identity_matrix 3 \<longrightarrow>
      pre_preprocessing_hook vw settings self gd f1 f2 w
        = bind_io (if keypoint_alignment settings
                   then determine_image_alignment vw f1 f2 (joint_lo vw left right) (joint_hi vw left right)
                   else return_io (identity_matrix 3)) (\<lambda>align_matrix.
          bind_io (write_matrix (m_out_prefix self @ ''-align.exr'') align_matrix) (\<lambda>_.
          bind_io (write_image (m_out_prefix self @ ''-L.tif'')
                     (vw_normalize vw (joint_lo vw left right) (joint_hi vw left right) left)) (\<lambda>_.
          bind_io (write_image (m_out_prefix self @ ''-R.tif'')
                     (vw_homography_transform vw align_matrix
                        (vw_normalize vw (joint_lo vw left right) (joint_hi vw left right) right)
                        (img_cols left) (img_rows left))) (\<lambda>_.
          return_io (m_out_prefix self @ ''-L.tif'', m_out_prefix self @ ''-R.tif''))))) w)"
  using pre_preprocessing_map_projected [of w f1 left g1 f2 right g2 gd vw settings self]
    pre_preprocessing_unprojected [of w f1 left g1 f2 right g2 gd vw settings self]
  by blast

theorem preprocessing_branches_on_default_georeference_witness:
  "pre_preprocessing_hook example_vw \<lparr>keypoint_alignment = True\<rparr> example_session
      \<lparr>transform = scale2\<rparr> ''left.cub'' ''right.cub'' example_world
     = (Inr (''out-L.tif'', ''out-R.tif''),
        example_world\<lparr>files := (files example_world)
                         (''out-L.tif'' \<mapsto> ImageFile [[0, 1]] (identity_matrix 3),
                          ''out-R.tif'' \<mapsto> ImageFile [[1, 0]] (identity_matrix 3)),
                      trace := [EvWriteImage ''out-L.tif'', EvWriteImage ''out-R.tif'']\<rparr>)
   \<and> trace (snd (pre_preprocessing_hook example_vw \<lparr>keypoint_alignment = False\<rparr> example_session
                    \<lparr>transform = identity_matrix 3\<rparr> ''left.cub'' ''right.cub'' example_world))
     = [EvWriteMatrix ''out-align.exr'', EvWriteImage ''out-L.tif'', EvWriteImage ''out-R.tif'']"
proof -
  note branch = preprocessing_branches_on_default_georeference [where w = example_world
      and vw = example_vw and self = example_session and ?f1.0 = "''left.cub''" and ?f2.0 = "''right.cub''"
      and left = "[[0, 1]]" and right = "[[1, 0]]" and ?g1.0 = scale2 and ?g2.0 = scale2]
  have one: "pre_preprocessing_hook example_vw \<lparr>keypoint_alignment = True\<rparr> example_session
      \<lparr>transform = scale2\<rparr> ''left.cub'' ''right.cub'' example_world
     = (Inr (''out-L.tif'', ''out-R.tif''),
        example_world\<lparr>files := (files example_world)
                         (''out-L.tif'' \<mapsto> ImageFile [[0, 1]] (identity_matrix 3),
                          ''out-R.tif'' \<mapsto> ImageFile [[1, 0]] (identity_matrix 3)),
                      trace := [EvWriteImage ''out-L.tif'', EvWriteImage ''out-R.tif'']\<rparr>)"
    using branch [where gd = "\<lparr>transform = scale2\<rparr>" and settings = "\<lparr>keypoint_alignment = True\<rparr>"]
    by (simp add: example_world_facts example_vw_facts example_session_facts scale2_not_identity)
  have two: "trace (snd (pre_preprocessing_hook example_vw \<lparr>keypoint_alignment = False\<rparr> example_session
                    \<lparr>transform = identity_matrix 3\<rparr> ''left.cub'' ''right.cub'' example_world))
     = [EvWriteMatrix ''out-align.exr'', EvWriteImage ''out-L.tif'', EvWriteImage ''out-R.tif'']"
    using branch [where gd = "\<lparr>transform = identity_matrix 3\<rparr>" and settings = "\<lparr>keypoint_alignment = False\<rparr>"]
    by (simp add: example_world_facts example_vw_facts example_session_facts
          bind_io_def return_io_def write_matrix_def write_image_def)
  from one two show ?thesis by simp
qed

lemma example_matched:
  "matched_interest_points example_vw ''left.cub'' ''right.cub'' 0 1 example_world
      = (Inr ([example_point], [example_point]),
         example_world\<lparr>files := (files example_world)
              (''left.vwip'' \<mapsto> IpFile [example_point], ''right.vwip'' \<mapsto> IpFile [example_point],
               ''left__right.match'' \<mapsto> MatchFile [example_point] [example_point]),
            trace :=
              [EvDetect ''left.cub'', EvDetect ''right.cub'', EvDescribe ''left.cub'', EvDescribe ''right.cub'',
               EvWriteIp ''left.vwip'', EvWriteIp ''right.vwip'', EvReadIp ''left.vwip'', EvReadIp ''right.vwip'',
               EvMatcher, EvWriteMatch ''left__right.match'']\<rparr>)"
  using matched_from_images [of example_world "''left.cub''" "''right.cub''" "[[0, 1]]" scale2 "[[1, 0]]" scale2
        _ example_vw 0 1 _ _, OF _ _ example_world_facts(3,4) refl refl refl]
  by (simp add: example_names example_world_facts example_vw_facts)

text \<open>
  C7 (as stated, refuted). Both images carry a georeference that is not the identity, the
  default georeference is the identity, and keypoint alignment is on: the hook detects,
  describes, matches, fits, and writes the two interest point files, the match file and the
  alignment matrix.
\<close>

theorem preprocessing_ignores_image_georeference_counterexample:
  "files example_world ''left.cub'' = Some (ImageFile [[0, 1]] scale2)
   \<and> files example_world ''right.cub'' = Some (ImageFile [[1, 0]] scale2)
   \<and> scale2 \<noteq> identity_matrix 3
   \<and> trace (snd (pre_preprocessing_hook example_vw \<lparr>keypoint_alignment = True\<rparr> example_session
                    \<lparr>transform = identity_matrix 3\<rparr> ''left.cub'' ''right.cub'' example_world))
       = [EvDetect ''left.cub'', EvDetect ''right.cub'', EvDescribe ''left.cub'', EvDescribe ''right.cub'',
          EvWriteIp ''left.vwip'', EvWriteIp ''right.vwip'', EvReadIp ''left.vwip'', EvReadIp ''right.vwip'',
          EvMatcher, EvWriteMatch ''left__right.match'', EvRansac, EvAlignmentWarning,
          EvWriteMatrix ''out-align.exr'', EvWriteImage ''out-L.tif'', EvWriteImage ''out-R.tif'']
   \<and> exists_file (snd (pre_preprocessing_hook example_vw \<lparr>keypoint_alignment = True\<rparr> example_session
                    \<lparr>transform = identity_matrix 3\<rparr> ''left.cub'' ''right.cub'' example_world))
         ''left__right.match''"
  using pre_preprocessing_aligned [of example_world "''left.cub''" "[[0, 1]]" scale2 "''right.cub''" "[[1, 0]]" scale2
        "\<lparr>transform = identity_matrix 3\<rparr>" "\<lparr>keypoint_alignment = True\<rparr>" example_vw
        "[example_point]" "[example_point]" _ _ example_session, OF example_world_facts(3,4) _ _ _ refl]
  by (simp add: example_vw_facts example_matched example_world_facts example_session_facts
        scale2_not_identity exists_file_def)

end
